theory Spec2Isabelle
  imports Main
begin

section \<open>JavaScript values and strings\<close>

text \<open>
  The values a parsed document header can hold, as the code probes them with
  \<^verbatim>\<open>typeof\<close>, \<^verbatim>\<open>===\<close> and \<^verbatim>\<open>Array.isArray\<close>.
  Strings are lists of 8-bit characters. A number is carried by its canonical rendering
  (the text \<^verbatim>\<open>String(n)\<close> gives, \<^verbatim>\<open>NaN\<close> for the not-a-number value): the
  code only interpolates numbers into strings and asks \<^verbatim>\<open>isNaN\<close> of them.
  An object is the list of its own enumerable entries, in the order
  \<^verbatim>\<open>Object.entries\<close> gives them; its keys are ordinary data properties.
\<close>

datatype jsval =
    JUndefined
  | JNull
  | JBool bool
  | JNum string
  | JStr string
  | JArr "jsval list"
  | JObj "(string \<times> jsval) list"

definition sq :: char where
  "sq = CHR 0x27"

definition dq :: char where
  "dq = CHR 0x22"

fun join :: "string \<Rightarrow> string list \<Rightarrow> string" where
  "join sep [] = []"
| "join sep [x] = x"
| "join sep (x # y # ys) = x @ sep @ join sep (y # ys)"

text \<open>\<^verbatim>\<open>String(v)\<close> and template interpolation of a value.
  \<^verbatim>\<open>Array.prototype.join\<close> renders null and undefined elements as the empty string.\<close>

fun toString :: "jsval \<Rightarrow> string" where
  "toString JUndefined = ''undefined''"
| "toString JNull = ''null''"
| "toString (JBool b) = (if b then ''true'' else ''false'')"
| "toString (JNum n) = n"
| "toString (JStr s) = s"
| "toString (JArr xs) =
     join '','' (map (\<lambda>x. if x = JNull \<or> x = JUndefined then [] else toString x) xs)"
| "toString (JObj kvs) = ''[object Object]''"

fun typeof :: "jsval \<Rightarrow> string" where
  "typeof JUndefined = ''undefined''"
| "typeof JNull = ''object''"
| "typeof (JBool b) = ''boolean''"
| "typeof (JNum n) = ''number''"
| "typeof (JStr s) = ''string''"
| "typeof (JArr xs) = ''object''"
| "typeof (JObj kvs) = ''object''"

definition startsWith :: "string \<Rightarrow> string \<Rightarrow> bool" where
  "startsWith s p = (take (length p) s = p)"

definition endsWith :: "string \<Rightarrow> string \<Rightarrow> bool" where
  "endsWith s p = (length p \<le> length s \<and> drop (length s - length p) s = p)"

fun includes_str :: "string \<Rightarrow> string \<Rightarrow> bool" where
  "includes_str [] p = (p = [])"
| "includes_str (c # cs) p = (startsWith (c # cs) p \<or> includes_str cs p)"

text \<open>White space as \<^verbatim>\<open>\s\<close>, \<^verbatim>\<open>trim\<close> and the numeric-string grammar see it,
  within the 8-bit characters of the model: tab, line feed, vertical tab, form feed,
  carriage return, space and no-break space.\<close>

definition isSpace :: "char \<Rightarrow> bool" where
  "isSpace c = (c = CHR 0x09 \<or> c = CHR 0x0A \<or> c = CHR 0x0B \<or> c = CHR 0x0C
                \<or> c = CHR 0x0D \<or> c = CHR 0x20 \<or> c = CHR 0xA0)"

definition isDigit :: "char \<Rightarrow> bool" where
  "isDigit c = (c \<in> set ''0123456789'')"


subsection \<open>Numeric strings\<close>

text \<open>\<^verbatim>\<open>isNaN(parseFloat(s))\<close>: \<^verbatim>\<open>parseFloat\<close> skips leading white space and
  reads the longest prefix that is a decimal literal (an optional sign, then
  \<^verbatim>\<open>Infinity\<close>, digits, or a dot followed by a digit); the result is NaN exactly when
  there is no such prefix.\<close>

definition stripSign :: "string \<Rightarrow> string" where
  "stripSign s = (case s of [] \<Rightarrow> []
                  | c # r \<Rightarrow> if c = CHR ''+'' \<or> c = CHR ''-'' then r else s)"

definition parseFloat_isNaN :: "string \<Rightarrow> bool" where
  "parseFloat_isNaN s =
     (let u = stripSign (dropWhile isSpace s)
      in \<not> (startsWith u ''Infinity''
              \<or> (case u of [] \<Rightarrow> False
                  | c # r \<Rightarrow> isDigit c
                      \<or> (c = CHR ''.'' \<and> (case r of [] \<Rightarrow> False | d # _ \<Rightarrow> isDigit d)))))"

text \<open>The string-to-number conversion behind \<^verbatim>\<open>isNaN(v)\<close> on a value that is not a
  number: the whole trimmed string must be empty, a decimal literal or a binary, octal or
  hexadecimal integer literal.\<close>

definition trim :: "string \<Rightarrow> string" where
  "trim s = rev (dropWhile isSpace (rev (dropWhile isSpace s)))"

definition isExponentPart :: "string \<Rightarrow> bool" where
  "isExponentPart s =
     (case s of [] \<Rightarrow> False
      | e # r \<Rightarrow> (e = CHR ''e'' \<or> e = CHR ''E'')
                 \<and> stripSign r \<noteq> [] \<and> list_all isDigit (stripSign r))"

definition isStrDecimalLiteral :: "string \<Rightarrow> bool" where
  "isStrDecimalLiteral s =
     (let u = stripSign s
      in u = ''Infinity''
         \<or> (let ip = takeWhile isDigit u; r1 = dropWhile isDigit u
             in case r1 of
                  [] \<Rightarrow> ip \<noteq> []
                | c # r \<Rightarrow>
                    if c = CHR ''.''
                    then (let fp = takeWhile isDigit r; r2 = dropWhile isDigit r
                          in (ip \<noteq> [] \<or> fp \<noteq> []) \<and> (r2 = [] \<or> isExponentPart r2))
                    else ip \<noteq> [] \<and> isExponentPart r1))"

definition isNonDecimalIntegerLiteral :: "string \<Rightarrow> bool" where
  "isNonDecimalIntegerLiteral s =
     (case s of
        z # k # ds \<Rightarrow>
          z = CHR ''0'' \<and> ds \<noteq> []
          \<and> (if k = CHR ''b'' \<or> k = CHR ''B'' then list_all (\<lambda>c. c \<in> set ''01'') ds
             else if k = CHR ''o'' \<or> k = CHR ''O'' then list_all (\<lambda>c. c \<in> set ''01234567'') ds
             else if k = CHR ''x'' \<or> k = CHR ''X''
               then list_all (\<lambda>c. c \<in> set ''0123456789abcdefABCDEF'') ds
             else False)
      | _ \<Rightarrow> False)"

definition stringToNumber_isNaN :: "string \<Rightarrow> bool" where
  "stringToNumber_isNaN s =
     (let t = trim s
      in \<not> (t = [] \<or> isStrDecimalLiteral t \<or> isNonDecimalIntegerLiteral t))"

text \<open>\<^verbatim>\<open>isNaN(v)\<close>: the argument is converted to a number first; arrays and objects
  go through their string rendering.\<close>

fun isNaN :: "jsval \<Rightarrow> bool" where
  "isNaN JUndefined = True"
| "isNaN JNull = False"
| "isNaN (JBool b) = False"
| "isNaN (JNum n) = (n = ''NaN'')"
| "isNaN (JStr s) = stringToNumber_isNaN s"
| "isNaN (JArr xs) = stringToNumber_isNaN (toString (JArr xs))"
| "isNaN (JObj kvs) = stringToNumber_isNaN (toString (JObj kvs))"

section \<open>pandoc-options.ts: the option schema and its validator\<close>

datatype OptionType = TBoolean | TString | TNumber | TChoice | TFile

text \<open>\<^verbatim>\<open>PandocOptionSchema\<close>. The optional fields are options; the
  \<^verbatim>\<open>description\<close> text is documentation that no code reads and is left out.\<close>

record PandocOptionSchema =
  type :: OptionType
  flagOnly :: "bool option"
  choices :: "string list option"
  allowMultiple :: "bool option"

definition PANDOC_OPTIONS :: "(string \<times> PandocOptionSchema) list" where
  "PANDOC_OPTIONS = [
  (''from'', \<lparr>type = TChoice, flagOnly = None, choices = Some [''markdown'', ''commonmark'', ''docx'', ''csv'', ''html'', ''json'', ''latex'', ''odt''], allowMultiple = None\<rparr>),
  (''read'', \<lparr>type = TChoice, flagOnly = None, choices = Some [''markdown'', ''commonmark'', ''docx'', ''csv'', ''html'', ''json'', ''latex'', ''odt''], allowMultiple = None\<rparr>),
  (''to'', \<lparr>type = TChoice, flagOnly = None, choices = Some [''asciidoc'', ''beamer'', ''commonmark_x'', ''docx'', ''epub'', ''html'', ''pdf'', ''json'', ''latex'', ''odt'', ''pptx'', ''revealjs'', ''rtf'', ''docuwiki'', ''mediawiki''], allowMultiple = None\<rparr>),
  (''write'', \<lparr>type = TChoice, flagOnly = None, choices = Some [''asciidoc'', ''beamer'', ''commonmark_x'', ''docx'', ''epub'', ''html'', ''pdf'', ''json'', ''latex'', ''odt'', ''pptx'', ''revealjs'', ''rtf'', ''docuwiki'', ''mediawiki''], allowMultiple = None\<rparr>),
  (''output'', \<lparr>type = TFile, flagOnly = None, choices = None, allowMultiple = None\<rparr>),
  (''data-dir'', \<lparr>type = TFile, flagOnly = None, choices = None, allowMultiple = None\<rparr>),
  (''metadata'', \<lparr>type = TString, flagOnly = None, choices = None, allowMultiple = Some True\<rparr>),
  (''metadata-file'', \<lparr>type = TFile, flagOnly = None, choices = None, allowMultiple = Some True\<rparr>),
  (''defaults'', \<lparr>type = TFile, flagOnly = None, choices = None, allowMultiple = None\<rparr>),
  (''file-scope'', \<lparr>type = TBoolean, flagOnly = None, choices = None, allowMultiple = None\<rparr>),
  (''sandbox'', \<lparr>type = TBoolean, flagOnly = None, choices = None, allowMultiple = None\<rparr>),
  (''standalone'', \<lparr>type = TBoolean, flagOnly = None, choices = None, allowMultiple = None\<rparr>),
  (''template'', \<lparr>type = TFile, flagOnly = None, choices = None, allowMultiple = None\<rparr>),
  (''variable'', \<lparr>type = TString, flagOnly = None, choices = None, allowMultiple = Some True\<rparr>),
  (''variable-json'', \<lparr>type = TString, flagOnly = None, choices = None, allowMultiple = Some True\<rparr>),
  (''wrap'', \<lparr>type = TChoice, flagOnly = None, choices = Some [''auto'', ''none'', ''preserve''], allowMultiple = None\<rparr>),
  (''ascii'', \<lparr>type = TBoolean, flagOnly = None, choices = None, allowMultiple = None\<rparr>),
  (''toc'', \<lparr>type = TBoolean, flagOnly = Some True, choices = None, allowMultiple = None\<rparr>),
  (''table-of-contents'', \<lparr>type = TBoolean, flagOnly = Some True, choices = None, allowMultiple = None\<rparr>),
  (''toc-depth'', \<lparr>type = TNumber, flagOnly = None, choices = None, allowMultiple = None\<rparr>),
  (''lof'', \<lparr>type = TBoolean, flagOnly = Some True, choices = None, allowMultiple = None\<rparr>),
  (''list-of-figures'', \<lparr>type = TBoolean, flagOnly = Some True, choices = None, allowMultiple = None\<rparr>),
  (''lot'', \<lparr>type = TBoolean, flagOnly = Some True, choices = None, allowMultiple = None\<rparr>),
  (''list-of-tables'', \<lparr>type = TBoolean, flagOnly = Some True, choices = None, allowMultiple = None\<rparr>),
  (''number-sections'', \<lparr>type = TBoolean, flagOnly = Some True, choices = None, allowMultiple = None\<rparr>),
  (''number-offset'', \<lparr>type = TString, flagOnly = None, choices = None, allowMultiple = None\<rparr>),
  (''top-level-division'', \<lparr>type = TChoice, flagOnly = None, choices = Some [''section'', ''chapter'', ''part''], allowMultiple = None\<rparr>),
  (''extract-media'', \<lparr>type = TFile, flagOnly = None, choices = None, allowMultiple = None\<rparr>),
  (''resource-path'', \<lparr>type = TString, flagOnly = None, choices = None, allowMultiple = Some True\<rparr>),
  (''include-in-header'', \<lparr>type = TFile, flagOnly = None, choices = None, allowMultiple = Some True\<rparr>),
  (''include-before-body'', \<lparr>type = TFile, flagOnly = None, choices = None, allowMultiple = Some True\<rparr>),
  (''include-after-body'', \<lparr>type = TFile, flagOnly = None, choices = None, allowMultiple = Some True\<rparr>),
  (''no-highlight'', \<lparr>type = TBoolean, flagOnly = Some True, choices = None, allowMultiple = None\<rparr>),
  (''highlight-style'', \<lparr>type = TString, flagOnly = None, choices = None, allowMultiple = None\<rparr>),
  (''syntax-definition'', \<lparr>type = TFile, flagOnly = None, choices = None, allowMultiple = Some True\<rparr>),
  (''dpi'', \<lparr>type = TNumber, flagOnly = None, choices = None, allowMultiple = None\<rparr>),
  (''eol'', \<lparr>type = TChoice, flagOnly = None, choices = Some [''crlf'', ''lf'', ''native''], allowMultiple = None\<rparr>),
  (''columns'', \<lparr>type = TNumber, flagOnly = None, choices = None, allowMultiple = None\<rparr>),
  (''preserve-tabs'', \<lparr>type = TBoolean, flagOnly = None, choices = None, allowMultiple = None\<rparr>),
  (''tab-stop'', \<lparr>type = TNumber, flagOnly = None, choices = None, allowMultiple = None\<rparr>),
  (''pdf-engine'', \<lparr>type = TChoice, flagOnly = None, choices = Some [''pdflatex'', ''lualatex'', ''xelatex'', ''wkhtmltopdf'', ''weasyprint'', ''pagedjs-cli'', ''prince'', ''context'', ''pdfroff''], allowMultiple = None\<rparr>),
  (''pdf-engine-opt'', \<lparr>type = TString, flagOnly = None, choices = None, allowMultiple = Some True\<rparr>),
  (''reference-doc'', \<lparr>type = TFile, flagOnly = None, choices = None, allowMultiple = None\<rparr>),
  (''self-contained'', \<lparr>type = TBoolean, flagOnly = None, choices = None, allowMultiple = None\<rparr>),
  (''embed-resources'', \<lparr>type = TBoolean, flagOnly = None, choices = None, allowMultiple = None\<rparr>),
  (''link-images'', \<lparr>type = TBoolean, flagOnly = None, choices = None, allowMultiple = None\<rparr>),
  (''request-header'', \<lparr>type = TString, flagOnly = None, choices = None, allowMultiple = Some True\<rparr>),
  (''no-check-certificate'', \<lparr>type = TBoolean, flagOnly = None, choices = None, allowMultiple = None\<rparr>),
  (''citeproc'', \<lparr>type = TBoolean, flagOnly = Some True, choices = None, allowMultiple = None\<rparr>),
  (''bibliography'', \<lparr>type = TFile, flagOnly = None, choices = None, allowMultiple = Some True\<rparr>),
  (''csl'', \<lparr>type = TFile, flagOnly = None, choices = None, allowMultiple = None\<rparr>),
  (''citation-abbreviations'', \<lparr>type = TFile, flagOnly = None, choices = None, allowMultiple = None\<rparr>),
  (''natbib'', \<lparr>type = TBoolean, flagOnly = Some True, choices = None, allowMultiple = None\<rparr>),
  (''biblatex'', \<lparr>type = TBoolean, flagOnly = Some True, choices = None, allowMultiple = None\<rparr>),
  (''mathml'', \<lparr>type = TBoolean, flagOnly = Some True, choices = None, allowMultiple = None\<rparr>),
  (''webtex'', \<lparr>type = TString, flagOnly = None, choices = None, allowMultiple = None\<rparr>),
  (''mathjax'', \<lparr>type = TString, flagOnly = None, choices = None, allowMultiple = None\<rparr>),
  (''katex'', \<lparr>type = TString, flagOnly = None, choices = None, allowMultiple = None\<rparr>),
  (''gladtex'', \<lparr>type = TBoolean, flagOnly = Some True, choices = None, allowMultiple = None\<rparr>),
  (''abbreviations'', \<lparr>type = TFile, flagOnly = None, choices = None, allowMultiple = None\<rparr>),
  (''indented-code-classes'', \<lparr>type = TString, flagOnly = None, choices = None, allowMultiple = None\<rparr>),
  (''default-image-extension'', \<lparr>type = TString, flagOnly = None, choices = None, allowMultiple = None\<rparr>),
  (''filter'', \<lparr>type = TString, flagOnly = None, choices = None, allowMultiple = Some True\<rparr>),
  (''lua-filter'', \<lparr>type = TFile, flagOnly = None, choices = None, allowMultiple = Some True\<rparr>),
  (''shift-heading-level-by'', \<lparr>type = TNumber, flagOnly = None, choices = None, allowMultiple = None\<rparr>),
  (''base-header-level'', \<lparr>type = TNumber, flagOnly = None, choices = None, allowMultiple = None\<rparr>),
  (''track-changes'', \<lparr>type = TChoice, flagOnly = None, choices = Some [''accept'', ''reject'', ''all''], allowMultiple = None\<rparr>),
  (''strip-comments'', \<lparr>type = TBoolean, flagOnly = None, choices = None, allowMultiple = None\<rparr>),
  (''reference-links'', \<lparr>type = TBoolean, flagOnly = None, choices = None, allowMultiple = None\<rparr>),
  (''reference-location'', \<lparr>type = TChoice, flagOnly = None, choices = Some [''block'', ''section'', ''document''], allowMultiple = None\<rparr>),
  (''css'', \<lparr>type = TFile, flagOnly = None, choices = None, allowMultiple = Some True\<rparr>),
  (''epub-subdirectory'', \<lparr>type = TString, flagOnly = None, choices = None, allowMultiple = None\<rparr>),
  (''epub-cover-image'', \<lparr>type = TFile, flagOnly = None, choices = None, allowMultiple = None\<rparr>),
  (''epub-title-page'', \<lparr>type = TBoolean, flagOnly = None, choices = None, allowMultiple = None\<rparr>),
  (''epub-metadata'', \<lparr>type = TFile, flagOnly = None, choices = None, allowMultiple = None\<rparr>),
  (''epub-embed-font'', \<lparr>type = TFile, flagOnly = None, choices = None, allowMultiple = Some True\<rparr>),
  (''split-level'', \<lparr>type = TNumber, flagOnly = None, choices = None, allowMultiple = None\<rparr>),
  (''chunk-template'', \<lparr>type = TFile, flagOnly = None, choices = None, allowMultiple = None\<rparr>),
  (''epub-chapter-level'', \<lparr>type = TNumber, flagOnly = None, choices = None, allowMultiple = None\<rparr>),
  (''ipynb-output'', \<lparr>type = TChoice, flagOnly = None, choices = Some [''all'', ''none'', ''best''], allowMultiple = None\<rparr>),
  (''slide-level'', \<lparr>type = TNumber, flagOnly = None, choices = None, allowMultiple = None\<rparr>),
  (''section-divs'', \<lparr>type = TBoolean, flagOnly = None, choices = None, allowMultiple = None\<rparr>),
  (''html-q-tags'', \<lparr>type = TBoolean, flagOnly = None, choices = None, allowMultiple = None\<rparr>),
  (''email-obfuscation'', \<lparr>type = TChoice, flagOnly = None, choices = Some [''none'', ''javascript'', ''references''], allowMultiple = None\<rparr>),
  (''id-prefix'', \<lparr>type = TString, flagOnly = None, choices = None, allowMultiple = None\<rparr>),
  (''title-prefix'', \<lparr>type = TString, flagOnly = None, choices = None, allowMultiple = None\<rparr>),
  (''listings'', \<lparr>type = TBoolean, flagOnly = None, choices = None, allowMultiple = None\<rparr>),
  (''incremental'', \<lparr>type = TBoolean, flagOnly = None, choices = None, allowMultiple = None\<rparr>),
  (''figure-caption-position'', \<lparr>type = TChoice, flagOnly = None, choices = Some [''above'', ''below''], allowMultiple = None\<rparr>),
  (''table-caption-position'', \<lparr>type = TChoice, flagOnly = None, choices = Some [''above'', ''below''], allowMultiple = None\<rparr>),
  (''markdown-headings'', \<lparr>type = TChoice, flagOnly = None, choices = Some [''setext'', ''atx''], allowMultiple = None\<rparr>),
  (''list-tables'', \<lparr>type = TBoolean, flagOnly = None, choices = None, allowMultiple = None\<rparr>),
  (''trace'', \<lparr>type = TBoolean, flagOnly = None, choices = None, allowMultiple = None\<rparr>),
  (''dump-args'', \<lparr>type = TBoolean, flagOnly = None, choices = None, allowMultiple = None\<rparr>),
  (''ignore-args'', \<lparr>type = TBoolean, flagOnly = None, choices = None, allowMultiple = None\<rparr>),
  (''verbose'', \<lparr>type = TBoolean, flagOnly = Some True, choices = None, allowMultiple = None\<rparr>),
  (''quiet'', \<lparr>type = TBoolean, flagOnly = Some True, choices = None, allowMultiple = None\<rparr>),
  (''fail-if-warnings'', \<lparr>type = TBoolean, flagOnly = None, choices = None, allowMultiple = None\<rparr>),
  (''log'', \<lparr>type = TFile, flagOnly = None, choices = None, allowMultiple = None\<rparr>),
  (''version'', \<lparr>type = TBoolean, flagOnly = Some True, choices = None, allowMultiple = None\<rparr>),
  (''help'', \<lparr>type = TBoolean, flagOnly = Some True, choices = None, allowMultiple = None\<rparr>),
  (''list-input-formats'', \<lparr>type = TBoolean, flagOnly = Some True, choices = None, allowMultiple = None\<rparr>),
  (''list-output-formats'', \<lparr>type = TBoolean, flagOnly = Some True, choices = None, allowMultiple = None\<rparr>),
  (''list-extensions'', \<lparr>type = TString, flagOnly = None, choices = None, allowMultiple = None\<rparr>),
  (''list-highlight-languages'', \<lparr>type = TBoolean, flagOnly = Some True, choices = None, allowMultiple = None\<rparr>),
  (''list-highlight-styles'', \<lparr>type = TBoolean, flagOnly = Some True, choices = None, allowMultiple = None\<rparr>),
  (''print-default-template'', \<lparr>type = TString, flagOnly = None, choices = None, allowMultiple = None\<rparr>),
  (''print-default-data-file'', \<lparr>type = TFile, flagOnly = None, choices = None, allowMultiple = None\<rparr>),
  (''print-highlight-style'', \<lparr>type = TString, flagOnly = None, choices = None, allowMultiple = None\<rparr>),
  (''bash-completion'', \<lparr>type = TBoolean, flagOnly = Some True, choices = None, allowMultiple = None\<rparr>)
  ]"

definition FILE_PATH_ARGUMENTS :: "string list" where
  "FILE_PATH_ARGUMENTS = [
    ''template'', ''css'', ''bibliography'', ''csl'', ''reference-doc'', ''reference-odt'',
    ''reference-docx'', ''epub-cover-image'', ''epub-stylesheet'', ''include-in-header'',
    ''include-before-body'', ''include-after-body'', ''lua-filter'', ''filter'',
    ''metadata-file'', ''abbreviations'', ''syntax-definition'', ''defaults'',
    ''data-dir'', ''extract-media'', ''output'', ''epub-metadata'', ''epub-embed-font'',
    ''chunk-template'', ''citation-abbreviations'', ''log'', ''print-default-data-file'']"

record ValidationResult =
  isValid :: bool
  error :: "string option"

definition valid :: ValidationResult where
  "valid = \<lparr>isValid = True, error = None\<rparr>"

definition invalid :: "string \<Rightarrow> ValidationResult" where
  "invalid msg = \<lparr>isValid = False, error = Some msg\<rparr>"

text \<open>\<^verbatim>\<open>validatePandocOption(optionName, value)\<close>. The registry is looked up by
  name; a name it does not hold is accepted.\<close>

definition validatePandocOption :: "string \<Rightarrow> jsval \<Rightarrow> ValidationResult" where
  "validatePandocOption optionName v =
     (case map_of PANDOC_OPTIONS optionName of
        None \<Rightarrow> valid
      | Some schema \<Rightarrow>
          if type schema = TBoolean then
            (if flagOnly schema = Some True \<and> v \<noteq> JBool True then
               invalid (''Option '' @ [sq] @ optionName @ [sq]
                        @ '' is flag-only and should be set to true, not ''
                        @ [sq] @ toString v @ [sq])
             else if typeof v \<noteq> ''boolean'' then
               invalid (''Option '' @ [sq] @ optionName @ [sq]
                        @ '' expects a boolean value, got '' @ [sq] @ typeof v @ [sq])
             else valid)
          else if type schema = TChoice \<and> choices schema \<noteq> None then
            (if typeof v \<noteq> ''string'' \<or> toString v \<notin> set (the (choices schema)) then
               invalid (''Option '' @ [sq] @ optionName @ [sq] @ '' must be one of: ''
                        @ join '', '' (the (choices schema)) @ ''. Got ''
                        @ [sq] @ toString v @ [sq])
             else valid)
          else if type schema = TNumber then
            (if (if typeof v = ''string'' then parseFloat_isNaN (toString v) else isNaN v) then
               invalid (''Option '' @ [sq] @ optionName @ [sq]
                        @ '' expects a number, got '' @ [sq] @ toString v @ [sq])
             else valid)
          else if type schema = TString \<or> type schema = TFile then
            (if typeof v \<noteq> ''string'' then
               invalid (''Option '' @ [sq] @ optionName @ [sq]
                        @ '' expects a string, got '' @ [sq] @ typeof v @ [sq])
             else valid)
          else valid)"

text \<open>\<^verbatim>\<open>isFlagOnlyOption(optionName, value)\<close>.\<close>

definition isFlagOnlyOption :: "string \<Rightarrow> jsval \<Rightarrow> bool" where
  "isFlagOnlyOption optionName v =
     ((case map_of PANDOC_OPTIONS optionName of
         None \<Rightarrow> False
       | Some schema \<Rightarrow> flagOnly schema = Some True)
      \<and> v = JBool True)"


section \<open>The host: path functions and the file system\<close>

text \<open>
  \<^verbatim>\<open>path.isAbsolute\<close> and \<^verbatim>\<open>path.resolve\<close> belong to the platform and
  \<^verbatim>\<open>fileExists\<close> (imported from \<^verbatim>\<open>./global\<close>) asks the file system; the
  resolver is modelled over any such host. \<^verbatim>\<open>resolve\<close> takes the list of its
  arguments; \<^verbatim>\<open>fileExists\<close> is the answer of the file system during one export.
\<close>

record Host =
  isAbsolute :: "string \<Rightarrow> bool"
  resolve :: "string list \<Rightarrow> string"
  fileExists :: "string \<Rightarrow> bool"

subsection \<open>A POSIX host\<close>

text \<open>The POSIX flavour of the two path functions, for running the model: the
  arguments are joined from the right until one is absolute (the working directory last),
  then empty, \<^verbatim>\<open>.\<close> and \<^verbatim>\<open>..\<close> segments are resolved.\<close>

definition posix_isAbsolute :: "string \<Rightarrow> bool" where
  "posix_isAbsolute p = (case p of [] \<Rightarrow> False | c # _ \<Rightarrow> c = CHR ''/'')"

fun posix_gather :: "string list \<Rightarrow> string \<Rightarrow> string" where
  "posix_gather [] acc = acc"
| "posix_gather (p # ps) acc =
     (if p = [] then posix_gather ps acc
      else if posix_isAbsolute p then p @ ''/'' @ acc
      else posix_gather ps (p @ ''/'' @ acc))"

fun splitOn :: "char \<Rightarrow> string \<Rightarrow> string list" where
  "splitOn d [] = [[]]"
| "splitOn d (c # cs) =
     (if c = d then [] # splitOn d cs
      else (case splitOn d cs of [] \<Rightarrow> [[c]] | w # ws \<Rightarrow> (c # w) # ws))"

fun posix_normalize :: "string list \<Rightarrow> string list \<Rightarrow> string list" where
  "posix_normalize [] stack = stack"
| "posix_normalize (seg # segs) stack =
     (if seg = [] \<or> seg = ''.'' then posix_normalize segs stack
      else if seg = ''..'' then posix_normalize segs (butlast stack)
      else posix_normalize segs (stack @ [seg]))"

definition posix_resolve :: "string \<Rightarrow> string list \<Rightarrow> string" where
  "posix_resolve cwd segments =
     ''/'' @ join ''/'' (posix_normalize (splitOn CHR ''/'' (posix_gather (rev segments @ [cwd]) [])) [])"

definition posix_host :: "string \<Rightarrow> string list \<Rightarrow> Host" where
  "posix_host cwd files =
     \<lparr>isAbsolute = posix_isAbsolute, resolve = posix_resolve cwd,
      fileExists = (\<lambda>p. p \<in> set files)\<rparr>"

section \<open>main.ts: the path resolver and the header compiler of the markdown export\<close>

definition main_commonDirs :: "string list" where
  "main_commonDirs = [''templates'', ''Templates'', ''_templates'', ''pandoc'', ''.pandoc'', ''assets'']"

text \<open>The loop over the conventional directories: the first existing candidate is
  returned from the function; \<open>None\<close> is the loop running to its end.\<close>

fun tryCommonDirs :: "Host \<Rightarrow> string \<Rightarrow> string \<Rightarrow> string list \<Rightarrow> string option" where
  "tryCommonDirs h vaultBasePath filePath [] = None"
| "tryCommonDirs h vaultBasePath filePath (dir # dirs) =
     (let templatePath = resolve h [vaultBasePath, dir, filePath]
      in if fileExists h templatePath then Some templatePath
         else tryCommonDirs h vaultBasePath filePath dirs)"

text \<open>The block guarded by the custom folder setting: it returns the custom candidate
  when the setting is used and the candidate exists; \<open>None\<close> is falling through.\<close>

definition tryCustomFolder :: "Host \<Rightarrow> string option \<Rightarrow> string \<Rightarrow> string \<Rightarrow> string option" where
  "tryCustomFolder h templateFolder vaultBasePath filePath =
     (case templateFolder of
        None \<Rightarrow> None
      | Some folder \<Rightarrow>
          if folder = [] then None
          else
            (let customPath =
                   (if isAbsolute h folder then resolve h [folder, filePath]
                    else resolve h [vaultBasePath, folder, filePath])
             in if fileExists h customPath then Some customPath else None))"

text \<open>\<^verbatim>\<open>resolveFilePath(filePath, currentFileDir, vaultBasePath)\<close> of the plugin class;
  \<open>templateFolder\<close> is \<^verbatim>\<open>this.settings.templateFolder\<close>.\<close>

definition main_resolveFilePath ::
  "Host \<Rightarrow> string option \<Rightarrow> string \<Rightarrow> string \<Rightarrow> string \<Rightarrow> string" where
  "main_resolveFilePath h templateFolder filePath currentFileDir vaultBasePath =
     (if isAbsolute h filePath then filePath
      else
        let relativeToCurrent = resolve h [currentFileDir, filePath] in
        if fileExists h relativeToCurrent then relativeToCurrent
        else
          let relativeToVault = resolve h [vaultBasePath, filePath] in
          if fileExists h relativeToVault then relativeToVault
          else
            (case tryCustomFolder h templateFolder vaultBasePath filePath of
               Some customPath \<Rightarrow> customPath
             | None \<Rightarrow>
                 (case tryCommonDirs h vaultBasePath filePath main_commonDirs of
                    Some templatePath \<Rightarrow> templatePath
                  | None \<Rightarrow> filePath)))"

definition main_FILE_PATH_ARGUMENTS :: "string list" where
  "main_FILE_PATH_ARGUMENTS = [
    ''template'', ''css'', ''bibliography'', ''csl'', ''reference-doc'', ''reference-odt'',
    ''reference-docx'', ''epub-cover-image'', ''epub-stylesheet'', ''include-in-header'',
    ''include-before-body'', ''include-after-body'', ''lua-filter'', ''filter'',
    ''metadata-file'', ''abbreviations'', ''syntax-definition'']"

text \<open>An own data property of an object kept as the list of its entries is created or
  updated: an existing key keeps its place, a new key goes last.\<close>

fun setOwnProperty :: "(string \<times> jsval) list \<Rightarrow> string \<Rightarrow> jsval \<Rightarrow> (string \<times> jsval) list" where
  "setOwnProperty [] k v = [(k, v)]"
| "setOwnProperty ((k', v') # kvs) k v =
     (if k' = k then (k, v) # kvs else (k', v') # setOwnProperty kvs k v)"

text \<open>\<^verbatim>\<open>obj[key] = value\<close> on an object that was created by \<^verbatim>\<open>{}\<close> and only
  ever assigned to. The key \<^verbatim>\<open>__proto__\<close> is an accessor inherited from
  \<^verbatim>\<open>Object.prototype\<close>: the assignment runs its setter (which changes the prototype
  when the value is an object or null and does nothing otherwise) and creates no own
  property. Every other key becomes an own data property.\<close>

definition setProperty :: "(string \<times> jsval) list \<Rightarrow> string \<Rightarrow> jsval \<Rightarrow> (string \<times> jsval) list" where
  "setProperty obj k v = (if k = ''__proto__'' then obj else setOwnProperty obj k v)"

record Compiled =
  cleanedMetadata :: "(string \<times> jsval) list"
  cliArgs :: "string list"

text \<open>The inner loop over the elements of an array value.\<close>

fun main_pushItems ::
  "Host \<Rightarrow> string option \<Rightarrow> string \<Rightarrow> string \<Rightarrow> string \<Rightarrow> jsval list \<Rightarrow> string list \<Rightarrow> string list" where
  "main_pushItems h templateFolder currentFileDir vaultBasePath argName [] args = args"
| "main_pushItems h templateFolder currentFileDir vaultBasePath argName (item # items) args =
     main_pushItems h templateFolder currentFileDir vaultBasePath argName items
       (if item \<noteq> JNull \<and> item \<noteq> JUndefined then
          (let resolvedValue =
                 (if argName \<in> set main_FILE_PATH_ARGUMENTS
                  then main_resolveFilePath h templateFolder (toString item) currentFileDir vaultBasePath
                  else toString item)
           in args @ [''--'' @ argName @ ''='' @ resolvedValue])
        else args)"

text \<open>One turn of the loop over \<^verbatim>\<open>Object.entries(metadata)\<close>.\<close>

definition main_step ::
  "Host \<Rightarrow> string option \<Rightarrow> string \<Rightarrow> string \<Rightarrow> string \<times> jsval \<Rightarrow> Compiled \<Rightarrow> Compiled" where
  "main_step h templateFolder currentFileDir vaultBasePath entry st =
     (let key = fst entry; v = snd entry in
      if startsWith key ''pandoc-'' then
        (let argName = drop 7 key in
         if v = JBool True then
           st\<lparr>cliArgs := cliArgs st @ [''--'' @ argName]\<rparr>
         else if v = JBool False \<or> v = JNull \<or> v = JUndefined then st
         else (case v of
                 JArr items \<Rightarrow>
                   st\<lparr>cliArgs := main_pushItems h templateFolder currentFileDir vaultBasePath
                                     argName items (cliArgs st)\<rparr>
               | _ \<Rightarrow>
                   (let resolvedValue =
                          (if argName \<in> set main_FILE_PATH_ARGUMENTS
                           then main_resolveFilePath h templateFolder (toString v)
                                  currentFileDir vaultBasePath
                           else toString v)
                    in st\<lparr>cliArgs := cliArgs st @ [''--'' @ argName @ ''='' @ resolvedValue]\<rparr>)))
      else st\<lparr>cleanedMetadata := setProperty (cleanedMetadata st) key v\<rparr>)"

fun main_loop ::
  "Host \<Rightarrow> string option \<Rightarrow> string \<Rightarrow> string \<Rightarrow> (string \<times> jsval) list \<Rightarrow> Compiled \<Rightarrow> Compiled" where
  "main_loop h templateFolder currentFileDir vaultBasePath [] st = st"
| "main_loop h templateFolder currentFileDir vaultBasePath (entry # entries) st =
     main_loop h templateFolder currentFileDir vaultBasePath entries
       (main_step h templateFolder currentFileDir vaultBasePath entry st)"

text \<open>\<^verbatim>\<open>convertYamlToPandocArgs(metadata, currentFileDir, vaultBasePath)\<close> of the plugin
  class; \<open>metadata\<close> is the header as \<^verbatim>\<open>Object.entries\<close> lists it. The function
  awaits each path resolution before it goes on, so it is a function of the host's answers.\<close>

definition main_convertYamlToPandocArgs ::
  "Host \<Rightarrow> string option \<Rightarrow> (string \<times> jsval) list \<Rightarrow> string \<Rightarrow> string \<Rightarrow> Compiled" where
  "main_convertYamlToPandocArgs h templateFolder metadata currentFileDir vaultBasePath =
     main_loop h templateFolder currentFileDir vaultBasePath metadata
       \<lparr>cleanedMetadata = [], cliArgs = []\<rparr>"


section \<open>renderer.ts: the path resolver and the header compiler of the HTML export\<close>

definition renderer_commonDirs :: "string list" where
  "renderer_commonDirs = [''templates'', ''Templates'', ''_templates'', ''pandoc'', ''assets'']"

definition renderer_resolveFilePath ::
  "Host \<Rightarrow> string \<Rightarrow> string \<Rightarrow> string \<Rightarrow> string option \<Rightarrow> string" where
  "renderer_resolveFilePath h filePath currentFileDir vaultBasePath customTemplateFolder =
     (if isAbsolute h filePath then filePath
      else
        let relativeToCurrent = resolve h [currentFileDir, filePath] in
        if fileExists h relativeToCurrent then relativeToCurrent
        else
          let relativeToVault = resolve h [vaultBasePath, filePath] in
          if fileExists h relativeToVault then relativeToVault
          else
            (case tryCustomFolder h customTemplateFolder vaultBasePath filePath of
               Some customPath \<Rightarrow> customPath
             | None \<Rightarrow>
                 (case tryCommonDirs h vaultBasePath filePath renderer_commonDirs of
                    Some templatePath \<Rightarrow> templatePath
                  | None \<Rightarrow> filePath)))"

text \<open>The state of the renderer's compiler: the two results and the notices shown to
  the user so far (each \<^verbatim>\<open>new Notice\<close> appends one; the console log is not modelled).\<close>

record RCompiled = Compiled +
  notices :: "string list"

definition errorText :: "ValidationResult \<Rightarrow> string" where
  "errorText r = (case error r of None \<Rightarrow> ''undefined'' | Some e \<Rightarrow> e)"

fun renderer_pushItems ::
  "Host \<Rightarrow> string \<Rightarrow> string \<Rightarrow> string option \<Rightarrow> string \<Rightarrow> string \<Rightarrow> jsval list \<Rightarrow> RCompiled \<Rightarrow> RCompiled" where
  "renderer_pushItems h currentFileDir vaultBasePath customTemplateFolder key argName [] st = st"
| "renderer_pushItems h currentFileDir vaultBasePath customTemplateFolder key argName (item # items) st =
     renderer_pushItems h currentFileDir vaultBasePath customTemplateFolder key argName items
       (if item \<noteq> JNull \<and> item \<noteq> JUndefined then
          (let itemValidation = validatePandocOption argName item in
           if \<not> isValid itemValidation then
             st\<lparr>notices := notices st @ [''Pandoc argument validation error for '' @ key
                                         @ ''[]: '' @ errorText itemValidation]\<rparr>
           else
             (let resolvedValue =
                    (if argName \<in> set FILE_PATH_ARGUMENTS
                     then renderer_resolveFilePath h (toString item) currentFileDir vaultBasePath
                            customTemplateFolder
                     else toString item)
              in st\<lparr>cliArgs := cliArgs st @ [''--'' @ argName @ ''='' @ resolvedValue]\<rparr>))
        else st)"

definition renderer_step ::
  "Host \<Rightarrow> string \<Rightarrow> string \<Rightarrow> string option \<Rightarrow> string \<times> jsval \<Rightarrow> RCompiled \<Rightarrow> RCompiled" where
  "renderer_step h currentFileDir vaultBasePath customTemplateFolder entry st =
     (let key = fst entry; v = snd entry in
      if startsWith key ''pandoc-'' then
        (let argName = drop 7 key;
             validation = validatePandocOption argName v in
         if \<not> isValid validation then
           st\<lparr>notices := notices st @ [''Pandoc argument validation error: ''
                                       @ errorText validation]\<rparr>
         else if v = JBool False \<or> v = JNull \<or> v = JUndefined then st
         else if v = JBool True then
           (if isFlagOnlyOption argName v then
              st\<lparr>cliArgs := cliArgs st @ [''--'' @ argName]\<rparr>
            else
              st\<lparr>cliArgs := cliArgs st @ [''--'' @ argName @ ''=true'']\<rparr>)
         else (case v of
                 JArr items \<Rightarrow>
                   renderer_pushItems h currentFileDir vaultBasePath customTemplateFolder
                     key argName items st
               | _ \<Rightarrow>
                   (let resolvedValue =
                          (if argName \<in> set FILE_PATH_ARGUMENTS
                           then renderer_resolveFilePath h (toString v) currentFileDir
                                  vaultBasePath customTemplateFolder
                           else toString v)
                    in st\<lparr>cliArgs := cliArgs st @ [''--'' @ argName @ ''='' @ resolvedValue]\<rparr>)))
      else st\<lparr>cleanedMetadata := setProperty (cleanedMetadata st) key v\<rparr>)"

fun renderer_loop ::
  "Host \<Rightarrow> string \<Rightarrow> string \<Rightarrow> string option \<Rightarrow> (string \<times> jsval) list \<Rightarrow> RCompiled \<Rightarrow> RCompiled" where
  "renderer_loop h currentFileDir vaultBasePath customTemplateFolder [] st = st"
| "renderer_loop h currentFileDir vaultBasePath customTemplateFolder (entry # entries) st =
     renderer_loop h currentFileDir vaultBasePath customTemplateFolder entries
       (renderer_step h currentFileDir vaultBasePath customTemplateFolder entry st)"

text \<open>\<^verbatim>\<open>convertYamlToPandocArgs(metadata, currentFileDir, vaultBasePath,
  customTemplateFolder)\<close> of the renderer, with the notices it raised.\<close>

definition renderer_convertYamlToPandocArgs ::
  "Host \<Rightarrow> (string \<times> jsval) list \<Rightarrow> string \<Rightarrow> string \<Rightarrow> string option \<Rightarrow> RCompiled" where
  "renderer_convertYamlToPandocArgs h metadata currentFileDir vaultBasePath customTemplateFolder =
     renderer_loop h currentFileDir vaultBasePath customTemplateFolder metadata
       \<lparr>cleanedMetadata = [], cliArgs = [], notices = []\<rparr>"


section \<open>pandoc.ts: the extra-argument parser and the argument vector\<close>

subsection \<open>The regular expression of \<^verbatim>\<open>parseArgumentString\<close>\<close>

text \<open>
  The pattern is one or more of: a run of characters that are neither white space nor a
  quote, a double-quoted stretch without a double quote inside, a single-quoted stretch
  without a single quote inside. Nothing follows the group, so the greedy repetition never
  backtracks: each turn takes the first alternative that matches, and the match ends where
  no alternative does.
\<close>

definition isPlain :: "char \<Rightarrow> bool" where
  "isPlain c = (\<not> isSpace c \<and> c \<noteq> dq \<and> c \<noteq> sq)"

text \<open>A quoted stretch at the head of \<open>q # cs\<close> (the opening quote \<open>q\<close> already seen):
  the matched text and the rest, when the closing quote exists.\<close>

definition matchQuoted :: "char \<Rightarrow> string \<Rightarrow> (string \<times> string) option" where
  "matchQuoted q cs =
     (case dropWhile (\<lambda>x. x \<noteq> q) cs of
        [] \<Rightarrow> None
      | _ # rest \<Rightarrow> Some (q # takeWhile (\<lambda>x. x \<noteq> q) cs @ [q], rest))"

text \<open>One turn of the group at the head of the string.\<close>

definition matchAlternative :: "string \<Rightarrow> (string \<times> string) option" where
  "matchAlternative s =
     (case s of
        [] \<Rightarrow> None
      | c # cs \<Rightarrow>
          if isPlain c then Some (takeWhile isPlain s, dropWhile isPlain s)
          else if c = dq then matchQuoted dq cs
          else if c = sq then matchQuoted sq cs
          else None)"

text \<open>The greedy repetition of the group: the matched text (empty when not even one turn
  matches) and the rest.\<close>

function matchGroup :: "string \<Rightarrow> string \<times> string" where
  "matchGroup s =
     (case matchAlternative s of
        None \<Rightarrow> ([], s)
      | Some (m, rest) \<Rightarrow> (case matchGroup rest of (ms, r) \<Rightarrow> (m @ ms, r)))"
  by pat_completeness auto
termination
proof (relation "measure length")
  show "wf (measure length)" by simp
next
  fix s :: string and x2 :: "string \<times> string" and m rest :: string
  assume a: "matchAlternative s = Some x2" and b: "(m, rest) = x2"
  have quoted: "length rest < length cs" if "matchQuoted q cs = Some (m, rest)" for q cs
  proof -
    from that obtain y where "dropWhile (\<lambda>x. x \<noteq> q) cs = y # rest"
      by (auto simp: matchQuoted_def split: list.splits)
    moreover have "length (dropWhile (\<lambda>x. x \<noteq> q) cs) \<le> length cs"
      by (rule length_dropWhile_le)
    ultimately show ?thesis by simp
  qed
  have "length rest < length s"
  proof (cases s)
    case Nil
    with a show ?thesis by (simp add: matchAlternative_def)
  next
    case (Cons c cs)
    show ?thesis
    proof (cases "isPlain c")
      case True
      with a b Cons have "rest = dropWhile isPlain cs"
        by (auto simp: matchAlternative_def)
      moreover have "length (dropWhile isPlain cs) \<le> length cs"
        by (rule length_dropWhile_le)
      ultimately show ?thesis using Cons by simp
    next
      case False
      with a b Cons have "matchQuoted dq cs = Some (m, rest) \<or> matchQuoted sq cs = Some (m, rest)"
        by (auto simp: matchAlternative_def split: if_splits)
      with quoted have "length rest < length cs" by blast
      with Cons show ?thesis by simp
    qed
  qed
  then show "(rest, s) \<in> measure length" by simp
qed

text \<open>The \<^verbatim>\<open>while ((match = regex.exec(argString)) !== null)\<close> loop of a global
  pattern: the leftmost match from the current position on, then on from its end; a
  position where the group does not match is passed over.\<close>

function matchAll :: "string \<Rightarrow> string list" where
  "matchAll s =
     (if s = [] then []
      else (case matchGroup s of
              (m, rest) \<Rightarrow> if m = [] then matchAll (tl s) else m # matchAll rest))"
  by pat_completeness auto
termination
proof (relation "measure length")
  show "wf (measure length)" by simp
next
  fix s m rest :: string
  assume "s \<noteq> []" "(m, rest) = matchGroup s" "m = []"
  then show "(tl s, s) \<in> measure length" by (cases s) simp_all
next
  fix s m rest :: string
  assume a: "s \<noteq> []" "(m, rest) = matchGroup s" "m \<noteq> []"
  have quoted: "q # cs = m' @ r'" if "matchQuoted q cs = Some (m', r')" for q cs m' r'
  proof -
    from that obtain y where d: "dropWhile (\<lambda>x. x \<noteq> q) cs = y # r'"
      and m': "m' = q # takeWhile (\<lambda>x. x \<noteq> q) cs @ [q]"
      by (auto simp: matchQuoted_def split: list.splits)
    from d have "\<not> (y \<noteq> q)"
      using hd_dropWhile [of "\<lambda>x. x \<noteq> q" cs] by simp
    moreover have "cs = takeWhile (\<lambda>x. x \<noteq> q) cs @ dropWhile (\<lambda>x. x \<noteq> q) cs"
      by simp
    ultimately show ?thesis using d m' by simp
  qed
  have alt: "t = m' @ r'" if "matchAlternative t = Some (m', r')" for t m' r'
  proof (cases t)
    case Nil
    with that show ?thesis by (simp add: matchAlternative_def)
  next
    case (Cons c cs)
    show ?thesis
    proof (cases "isPlain c")
      case True
      with that Cons have "m' = takeWhile isPlain t" "r' = dropWhile isPlain t"
        by (auto simp: matchAlternative_def)
      then show ?thesis by simp
    next
      case False
      with that Cons have "matchQuoted c cs = Some (m', r')"
        by (auto simp: matchAlternative_def split: if_splits)
      from quoted [OF this] Cons show ?thesis by simp
    qed
  qed
  have split: "t = fst (matchGroup t) @ snd (matchGroup t)" for t
  proof (induction t rule: matchGroup.induct)
    case (1 t)
    show ?case
    proof (cases "matchAlternative t")
      case None
      then show ?thesis by simp
    next
      case (Some p)
      obtain m' r' where p: "p = (m', r')" by (cases p)
      from alt Some p have t: "t = m' @ r'" by simp
      from "1.IH" [OF Some p [symmetric]] have "r' = fst (matchGroup r') @ snd (matchGroup r')" .
      with t Some p show ?thesis
        by (simp add: case_prod_beta)
    qed
  qed
  from a have "s = m @ rest" using split [of s] by (metis fst_conv snd_conv)
  with a show "(rest, s) \<in> measure length" by simp
qed

text \<open>The body of the loop: an argument holding \<^verbatim>\<open>=\<close> is cut at the first one; a
  value that starts and ends with the same quote loses both.\<close>

definition stripQuotes :: "string \<Rightarrow> string" where
  "stripQuotes v =
     (if (startsWith v [dq] \<and> endsWith v [dq]) \<or> (startsWith v [sq] \<and> endsWith v [sq])
      then butlast (tl v) else v)"

definition processArg :: "string \<Rightarrow> string" where
  "processArg arg =
     (if CHR ''='' \<in> set arg then
        (case splitOn CHR ''='' arg of
           [] \<Rightarrow> arg
         | flagPart # valueParts \<Rightarrow> flagPart @ ''='' @ stripQuotes (join ''='' valueParts))
      else arg)"

definition parseArgumentString :: "string \<Rightarrow> string list" where
  "parseArgumentString argString = map processArg (matchAll argString)"


subsection \<open>The argument vector\<close>

record PandocInput =
  input_file :: string
  input_format :: "string option"
  contents :: "string option"
  metadataFile :: "string option"
  pandoc_path :: "string option"
  pdflatex :: "string option"
  directory :: string
  documentArgs :: "string list option"

record PandocOutput =
  output_file :: string
  output_format :: "string option"

definition needsStandaloneFlag :: "PandocOutput \<Rightarrow> bool" where
  "needsStandaloneFlag output =
     (endsWith (output_file output) ''html''
      \<or> output_format output = Some ''html''
      \<or> output_format output = Some ''revealjs''
      \<or> output_format output = Some ''latex''
      \<or> output_format output = Some ''beamer'')"

text \<open>An optional string in a condition: used when present and not empty.\<close>

definition ifSet :: "string option \<Rightarrow> (string \<Rightarrow> string list) \<Rightarrow> string list" where
  "ifSet s f = (case s of None \<Rightarrow> [] | Some t \<Rightarrow> if t = [] then [] else f t)"

definition hasUserPdfEngine :: "PandocInput \<Rightarrow> string list option \<Rightarrow> bool" where
  "hasUserPdfEngine input extraParams =
     ((case extraParams of None \<Rightarrow> False
       | Some ps \<Rightarrow> list_ex (\<lambda>param. includes_str param ''--pdf-engine'') ps)
      \<or> (case documentArgs input of None \<Rightarrow> False
          | Some ds \<Rightarrow> list_ex (\<lambda>arg. includes_str arg ''--pdf-engine'') ds))"

text \<open>The arguments \<^verbatim>\<open>pandoc(input, output, extraParams)\<close> hands to the spawned
  process, push by push. \<open>lookpath\<close> tells whether a binary is found on the search
  path.\<close>

definition pandoc_args ::
  "(string \<Rightarrow> bool) \<Rightarrow> PandocInput \<Rightarrow> PandocOutput \<Rightarrow> string list option \<Rightarrow> string list" where
  "pandoc_args lookpath input output extraParams =
     (let stdin = (input_file input = ''STDIN'');
          stdout = (output_file output = ''STDOUT'');
          args = [];
          args = args @ ifSet (input_format input) (\<lambda>f. [''--from'', f]);
          args = args @ ifSet (output_format output) (\<lambda>f. [''--to'', f]);
          args = (if needsStandaloneFlag output then args @ [''-s''] else args);
          args = (if \<not> stdout then args @ [''-o'', output_file output]
                  else args @ [''-o'', ''-'']);
          args = (if output_format output = Some ''pdf''
                     \<and> \<not> hasUserPdfEngine input extraParams
                  then (if lookpath ''lualatex'' then args @ [''--pdf-engine=lualatex'']
                        else if lookpath ''xelatex'' then args @ [''--pdf-engine=xelatex'']
                        else args)
                  else args);
          args = (if \<not> stdin then args @ [input_file input] else args);
          args = args @ ifSet (metadataFile input) (\<lambda>f. [''--metadata-file'', f]);
          args = (case extraParams of
                    None \<Rightarrow> args
                  | Some ps \<Rightarrow>
                      (let parsedArgs = filter (\<lambda>x. length x \<noteq> 0)
                                          (concat (map parseArgumentString ps))
                       in args @ parsedArgs));
          args = (case documentArgs input of
                    None \<Rightarrow> args
                  | Some ds \<Rightarrow> args @ ds)
      in args)"

section \<open>The search order as the specification words it\<close>

text \<open>The candidate locations of a relative reference, in the order of the
  specification: the referencing document's directory, the root directory, the custom
  directory when one is configured (taken as it is when absolute, under the root
  otherwise), then each conventional directory of \<open>dirs\<close> under the root.\<close>

definition spec_candidates ::
  "Host \<Rightarrow> string option \<Rightarrow> string list \<Rightarrow> string \<Rightarrow> string \<Rightarrow> string \<Rightarrow> string list" where
  "spec_candidates h customDir dirs reference documentDir rootDir =
     [resolve h [documentDir, reference], resolve h [rootDir, reference]]
     @ (case customDir of
          None \<Rightarrow> []
        | Some folder \<Rightarrow>
            if folder = [] then []
            else if isAbsolute h folder then [resolve h [folder, reference]]
            else [resolve h [rootDir, folder, reference]])
     @ map (\<lambda>dir. resolve h [rootDir, dir, reference]) dirs"

text \<open>The first candidate that exists, the reference itself when none does.\<close>

definition spec_resolve ::
  "Host \<Rightarrow> string option \<Rightarrow> string list \<Rightarrow> string \<Rightarrow> string \<Rightarrow> string \<Rightarrow> string" where
  "spec_resolve h customDir dirs reference documentDir rootDir =
     (case find (fileExists h) (spec_candidates h customDir dirs reference documentDir rootDir) of
        Some candidate \<Rightarrow> candidate
      | None \<Rightarrow> reference)"

text \<open>The shape of a token for the option \<open>name\<close>: the bare switch
  \<^verbatim>\<open>--name\<close>, or \<^verbatim>\<open>--name=\<close> followed by a value.\<close>

definition spec_shaped :: "string \<Rightarrow> string \<Rightarrow> bool" where
  "spec_shaped name t = (t = ''--'' @ name \<or> startsWith t (''--'' @ name @ ''=''))"

text \<open>A well-formed token names an option: the name is not empty.\<close>

definition spec_wellFormed :: "string \<Rightarrow> string \<Rightarrow> bool" where
  "spec_wellFormed name t = (name \<noteq> [] \<and> spec_shaped name t)"

text \<open>The directive values that are emitted as one \<^verbatim>\<open>--name=value\<close> token: strings,
  numbers and objects (booleans, null and undefined are switches or skipped, arrays are
  emitted element by element).\<close>

definition spec_scalar :: "jsval \<Rightarrow> bool" where
  "spec_scalar v = (case v of JStr s \<Rightarrow> True | JNum n \<Rightarrow> True | JObj kvs \<Rightarrow> True | _ \<Rightarrow> False)"

section \<open>Extra-argument strings as the user writes them\<close>

text \<open>
  An argument of an extra-argument string is either a word (characters that are neither
  white space nor quotes; it may hold \<^verbatim>\<open>=\<close>), or a flag, \<^verbatim>\<open>=\<close> and a value
  between two double or two single quotes. The token it stands for is the word itself,
  or the flag, \<^verbatim>\<open>=\<close> and the value without its quotes.
\<close>

datatype ExtraArg = Word string | QuotedValue string char string

fun spec_written :: "ExtraArg \<Rightarrow> string" where
  "spec_written (Word a) = a"
| "spec_written (QuotedValue flag q v) = flag @ ''='' @ [q] @ v @ [q]"

fun spec_token :: "ExtraArg \<Rightarrow> string" where
  "spec_token (Word a) = a"
| "spec_token (QuotedValue flag q v) = flag @ ''='' @ v"

fun spec_wellWritten :: "ExtraArg \<Rightarrow> bool" where
  "spec_wellWritten (Word a) = (a \<noteq> [] \<and> list_all isPlain a)"
| "spec_wellWritten (QuotedValue flag q v) =
     (list_all isPlain flag \<and> CHR ''='' \<notin> set flag \<and> (q = dq \<or> q = sq) \<and> q \<notin> set v)"

text \<open>A line of arguments, each with the white space written before it.\<close>

definition spec_layout :: "(string \<times> ExtraArg) list \<Rightarrow> string" where
  "spec_layout line = concat (map (\<lambda>x. fst x @ spec_written (snd x)) line)"

text \<open>The line is well separated: what stands before an argument is white space, not
  empty between two arguments, and every argument is well written.\<close>

fun spec_separated :: "(string \<times> ExtraArg) list \<Rightarrow> bool" where
  "spec_separated [] = True"
| "spec_separated [x] = (list_all isSpace (fst x) \<and> spec_wellWritten (snd x))"
| "spec_separated (x # y # rest) =
     (list_all isSpace (fst x) \<and> spec_wellWritten (snd x) \<and> fst y \<noteq> []
      \<and> spec_separated (y # rest))"

declare matchGroup.simps [simp del]

declare matchAll.simps [simp del]


section \<open>The validator on flag-only options\<close>

text \<open>
  Claim C10. For an option the registry holds as a flag-only boolean, the validator
  accepts the literal boolean true and nothing else: false, the string "true", numbers
  and every other value are reported invalid. So a valid result for a flag-only option
  means that the value is exactly true.
\<close>

theorem flagOnly_valid_iff_true:
  assumes "map_of PANDOC_OPTIONS optionName = Some schema"
    and "type schema = TBoolean"
    and "flagOnly schema = Some True"
  shows "isValid (validatePandocOption optionName v) \<longleftrightarrow> v = JBool True"
proof (cases "v = JBool True")
  case True
  with assms show ?thesis
    by (simp add: validatePandocOption_def valid_def)
next
  case False
  with assms show ?thesis
    by (simp add: validatePandocOption_def invalid_def)
qed

theorem flagOnly_valid_iff_true_witness:
  "map_of PANDOC_OPTIONS ''toc''
     = Some \<lparr>type = TBoolean, flagOnly = Some True, choices = None, allowMultiple = None\<rparr>
   \<and> isValid (validatePandocOption ''toc'' (JBool True))
   \<and> \<not> isValid (validatePandocOption ''toc'' (JBool False))
   \<and> \<not> isValid (validatePandocOption ''toc'' (JStr ''true''))
   \<and> \<not> isValid (validatePandocOption ''toc'' (JNum ''1''))"
proof -
  let ?schema = "\<lparr>type = TBoolean, flagOnly = Some True, choices = None, allowMultiple = None\<rparr>"
  have look: "map_of PANDOC_OPTIONS ''toc'' = Some ?schema"
    by (simp add: PANDOC_OPTIONS_def)
  have t: "type ?schema = TBoolean" and f: "flagOnly ?schema = Some True"
    by simp_all
  note iff = flagOnly_valid_iff_true [OF look t f]
  show ?thesis
    using look iff [of "JBool True"] iff [of "JBool False"] iff [of "JStr ''true''"]
      iff [of "JNum ''1''"]
    by simp
qed

section \<open>The path resolver\<close>

lemma tryCommonDirs_find:
  "tryCommonDirs h vaultBasePath filePath dirs
     = find (fileExists h) (map (\<lambda>dir. resolve h [vaultBasePath, dir, filePath]) dirs)"
  by (induction dirs) (simp_all add: Let_def)

text \<open>
  Claim C9. A reference that is already an absolute path comes back unchanged, whatever
  the document directory, the root directory and the custom directory are and whether
  or not any file exists. This holds for the resolver of either export path.
\<close>

theorem absolute_reference_unchanged:
  assumes "isAbsolute h filePath"
  shows "main_resolveFilePath h templateFolder filePath currentFileDir vaultBasePath = filePath
         \<and> renderer_resolveFilePath h filePath currentFileDir vaultBasePath templateFolder = filePath"
  using assms by (simp add: main_resolveFilePath_def renderer_resolveFilePath_def)

theorem absolute_reference_unchanged_witness:
  "isAbsolute (posix_host ''/home/me'' []) ''/opt/tpl/a.tex''
   \<and> main_resolveFilePath (posix_host ''/home/me'' []) (Some ''tpl'') ''/opt/tpl/a.tex''
        ''/vault/notes'' ''/vault'' = ''/opt/tpl/a.tex''"
proof -
  have a: "isAbsolute (posix_host ''/home/me'' []) ''/opt/tpl/a.tex''"
    by (simp add: posix_host_def posix_isAbsolute_def)
  from absolute_reference_unchanged [OF a, of "Some ''tpl''" "''/vault/notes''" "''/vault''"] a
  show ?thesis by simp
qed

text \<open>
  Claim C4. For a relative reference the resolver returns the first existing candidate of
  the search order (document directory, root directory, the custom directory when set,
  then the conventional directories in their fixed order), and the reference itself when
  no candidate exists.
\<close>

theorem resolver_follows_search_order:
  assumes "\<not> isAbsolute h filePath"
  shows "main_resolveFilePath h templateFolder filePath currentFileDir vaultBasePath
           = spec_resolve h templateFolder
               [''templates'', ''Templates'', ''_templates'', ''pandoc'', ''.pandoc'', ''assets'']
               filePath currentFileDir vaultBasePath
         \<and> renderer_resolveFilePath h filePath currentFileDir vaultBasePath templateFolder
             = spec_resolve h templateFolder
                 [''templates'', ''Templates'', ''_templates'', ''pandoc'', ''assets'']
                 filePath currentFileDir vaultBasePath"
proof -
  have dirs: "main_commonDirs
    = [''templates'', ''Templates'', ''_templates'', ''pandoc'', ''.pandoc'', ''assets'']"
    by (simp add: main_commonDirs_def)
  have dirs': "renderer_commonDirs
    = [''templates'', ''Templates'', ''_templates'', ''pandoc'', ''assets'']"
    by (simp add: renderer_commonDirs_def)
  have "main_resolveFilePath h templateFolder filePath currentFileDir vaultBasePath
           = spec_resolve h templateFolder main_commonDirs filePath currentFileDir vaultBasePath"
    unfolding main_resolveFilePath_def spec_resolve_def spec_candidates_def
      tryCustomFolder_def tryCommonDirs_find
    using assms
    by (simp add: Let_def split: option.splits)
  moreover
  have "renderer_resolveFilePath h filePath currentFileDir vaultBasePath templateFolder
           = spec_resolve h templateFolder renderer_commonDirs filePath currentFileDir vaultBasePath"
    unfolding renderer_resolveFilePath_def spec_resolve_def spec_candidates_def
      tryCustomFolder_def tryCommonDirs_find
    using assms
    by (simp add: Let_def split: option.splits)
  ultimately show ?thesis
    unfolding dirs dirs' by simp
qed

theorem resolver_follows_search_order_witness:
  "\<not> isAbsolute (posix_host ''/home/me'' [''/vault/pandoc/refs.bib'', ''/vault/assets/refs.bib''])
        ''refs.bib''
   \<and> main_resolveFilePath
         (posix_host ''/home/me'' [''/vault/pandoc/refs.bib'', ''/vault/assets/refs.bib''])
         (Some ''tpl'') ''refs.bib'' ''/vault/notes'' ''/vault'' = ''/vault/pandoc/refs.bib''
   \<and> main_resolveFilePath (posix_host ''/home/me'' []) None ''refs.bib'' ''/vault/notes'' ''/vault''
       = ''refs.bib''"
proof -
  let ?h = "posix_host ''/home/me'' [''/vault/pandoc/refs.bib'', ''/vault/assets/refs.bib'']"
  let ?dirs = "[''templates'', ''Templates'', ''_templates'', ''pandoc'', ''.pandoc'', ''assets'']"
  have rel: "\<not> isAbsolute ?h ''refs.bib''"
    by (simp add: posix_host_def posix_isAbsolute_def)
  have rel': "\<not> isAbsolute (posix_host ''/home/me'' []) ''refs.bib''"
    by (simp add: posix_host_def posix_isAbsolute_def)
  have found: "spec_resolve ?h (Some ''tpl'') ?dirs ''refs.bib'' ''/vault/notes'' ''/vault''
                 = ''/vault/pandoc/refs.bib''"
    by code_simp
  have missing: "spec_resolve (posix_host ''/home/me'' []) None ?dirs ''refs.bib''
                   ''/vault/notes'' ''/vault'' = ''refs.bib''"
    by code_simp
  from resolver_follows_search_order [OF rel, of "Some ''tpl''" "''/vault/notes''" "''/vault''"]
    resolver_follows_search_order [OF rel', of None "''/vault/notes''" "''/vault''"]
    rel found missing
  show ?thesis by simp
qed

section \<open>The order of the argument vector\<close>

text \<open>
  Claim C3. In the argument vector handed to the external tool, the tokens parsed from
  the global default arguments come in one block, directly followed by the per-document
  directive arguments, which end the vector: every token of the defaults precedes every
  token of the directives.
\<close>

theorem defaults_precede_document_args:
  "\<exists>front.
     pandoc_args lookpath input output extraParams
       = front
         @ (case extraParams of
              None \<Rightarrow> []
            | Some ps \<Rightarrow> filter (\<lambda>x. length x \<noteq> 0) (concat (map parseArgumentString ps)))
         @ (case documentArgs input of None \<Rightarrow> [] | Some ds \<Rightarrow> ds)"
  unfolding pandoc_args_def Let_def
  by (simp split: option.splits)

theorem defaults_precede_document_args_witness:
  "pandoc_args (\<lambda>b. False)
     \<lparr>input_file = ''/vault/n.md'', input_format = Some ''markdown'', contents = None,
      metadataFile = None, pandoc_path = None, pdflatex = None, directory = ''/vault'',
      documentArgs = Some [''--toc'', ''--css=b.css'']\<rparr>
     \<lparr>output_file = ''/vault/n.docx'', output_format = Some ''docx''\<rparr>
     (Some [''--css=\"a b.css\" -V x=y''])
   = [''--from'', ''markdown'', ''--to'', ''docx'', ''-o'', ''/vault/n.docx'', ''/vault/n.md'']
     @ [''--css=a b.css'', ''-V'', ''x=y''] @ [''--toc'', ''--css=b.css'']"
proof -
  let ?inp = "\<lparr>input_file = ''/vault/n.md'', input_format = Some ''markdown'', contents = None,
       metadataFile = None, pandoc_path = None, pdflatex = None, directory = ''/vault'',
       documentArgs = Some [''--toc'', ''--css=b.css'']\<rparr>"
  let ?out = "\<lparr>output_file = ''/vault/n.docx'', output_format = Some ''docx''\<rparr>"
  let ?extra = "[''--css=\"a b.css\" -V x=y'']"
  from defaults_precede_document_args
         [of "\<lambda>b. False" ?inp ?out "Some ?extra"]
  obtain front where
    f: "pandoc_args (\<lambda>b. False) ?inp ?out (Some ?extra)
        = front @ filter (\<lambda>x. length x \<noteq> 0) (concat (map parseArgumentString ?extra))
          @ [''--toc'', ''--css=b.css'']"
    by auto
  have parsed: "filter (\<lambda>x. length x \<noteq> 0) (concat (map parseArgumentString ?extra))
                  = [''--css=a b.css'', ''-V'', ''x=y'']"
    by code_simp
  have whole: "pandoc_args (\<lambda>b. False) ?inp ?out (Some ?extra)
               = [''--from'', ''markdown'', ''--to'', ''docx'', ''-o'', ''/vault/n.docx'',
                  ''/vault/n.md'', ''--css=a b.css'', ''-V'', ''x=y'', ''--toc'', ''--css=b.css'']"
    by code_simp
  from f parsed whole have "front = [''--from'', ''markdown'', ''--to'', ''docx'', ''-o'',
      ''/vault/n.docx'', ''/vault/n.md'']"
    by simp
  with f parsed show ?thesis by simp
qed


section \<open>The cleaned metadata\<close>

lemma setOwnProperty_fresh:
  "k \<notin> fst ` set kvs \<Longrightarrow> setOwnProperty kvs k v = kvs @ [(k, v)]"
  by (induction kvs) auto

lemma setProperty_fresh:
  "k \<notin> fst ` set kvs \<Longrightarrow>
     setProperty kvs k v = (if k = ''__proto__'' then kvs else kvs @ [(k, v)])"
  by (simp add: setProperty_def setOwnProperty_fresh)

lemma setProperty_proto:
  "setProperty kvs ''__proto__'' v = kvs"
  by (simp add: setProperty_def)

lemma main_step_cleaned:
  "cleanedMetadata (main_step h templateFolder currentFileDir vaultBasePath entry st)
     = (if startsWith (fst entry) ''pandoc-'' then cleanedMetadata st
        else setProperty (cleanedMetadata st) (fst entry) (snd entry))"
  by (simp add: main_step_def Let_def split: jsval.splits)

lemma renderer_pushItems_cleaned:
  "cleanedMetadata (renderer_pushItems h currentFileDir vaultBasePath customTemplateFolder
                      key argName items st) = cleanedMetadata st"
  by (induction items arbitrary: st) (simp_all add: Let_def)

lemma renderer_step_cleaned:
  "cleanedMetadata (renderer_step h currentFileDir vaultBasePath customTemplateFolder entry st)
     = (if startsWith (fst entry) ''pandoc-'' then cleanedMetadata st
        else setProperty (cleanedMetadata st) (fst entry) (snd entry))"
  by (simp add: renderer_step_def Let_def renderer_pushItems_cleaned split: jsval.splits)

lemma main_loop_cleaned:
  assumes "distinct (map fst entries)"
    and "fst ` set (cleanedMetadata st) \<inter> fst ` set entries = {}"
  shows "cleanedMetadata (main_loop h templateFolder currentFileDir vaultBasePath entries st)
           = cleanedMetadata st
             @ filter (\<lambda>e. \<not> startsWith (fst e) ''pandoc-'' \<and> fst e \<noteq> ''__proto__'') entries"
  using assms
proof (induction entries arbitrary: st)
  case Nil
  show ?case by simp
next
  case (Cons entry entries)
  let ?st = "main_step h templateFolder currentFileDir vaultBasePath entry st"
  obtain k v where entry: "entry = (k, v)" by (cases entry)
  from Cons.prems entry have fresh: "k \<notin> fst ` set (cleanedMetadata st)" by auto
  have cm: "cleanedMetadata ?st
              = (if startsWith k ''pandoc-'' \<or> k = ''__proto__'' then cleanedMetadata st
                 else cleanedMetadata st @ [(k, v)])"
    using fresh by (simp add: main_step_cleaned entry setProperty_fresh setProperty_proto)
  from Cons.prems entry have d: "distinct (map fst entries)" and nk: "k \<notin> fst ` set entries"
    by auto
  from Cons.prems(2) nk entry cm
  have disj: "fst ` set (cleanedMetadata ?st) \<inter> fst ` set entries = {}"
    by (auto split: if_splits)
  from Cons.IH [OF d disj] cm entry show ?case by auto
qed

lemma renderer_loop_cleaned:
  assumes "distinct (map fst entries)"
    and "fst ` set (cleanedMetadata st) \<inter> fst ` set entries = {}"
  shows "cleanedMetadata (renderer_loop h currentFileDir vaultBasePath customTemplateFolder entries st)
           = cleanedMetadata st
             @ filter (\<lambda>e. \<not> startsWith (fst e) ''pandoc-'' \<and> fst e \<noteq> ''__proto__'') entries"
  using assms
proof (induction entries arbitrary: st)
  case Nil
  show ?case by simp
next
  case (Cons entry entries)
  let ?st = "renderer_step h currentFileDir vaultBasePath customTemplateFolder entry st"
  obtain k v where entry: "entry = (k, v)" by (cases entry)
  from Cons.prems entry have fresh: "k \<notin> fst ` set (cleanedMetadata st)" by auto
  have cm: "cleanedMetadata ?st
              = (if startsWith k ''pandoc-'' \<or> k = ''__proto__'' then cleanedMetadata st
                 else cleanedMetadata st @ [(k, v)])"
    using fresh by (simp add: renderer_step_cleaned entry setProperty_fresh setProperty_proto)
  from Cons.prems entry have d: "distinct (map fst entries)" and nk: "k \<notin> fst ` set entries"
    by auto
  from Cons.prems(2) nk entry cm
  have disj: "fst ` set (cleanedMetadata ?st) \<inter> fst ` set entries = {}"
    by (auto split: if_splits)
  from Cons.IH [OF d disj] cm entry show ?case by auto
qed

lemma cleaned_is_filter:
  assumes "distinct (map fst metadata)"
  shows "cleanedMetadata (main_convertYamlToPandocArgs h templateFolder metadata
                            currentFileDir vaultBasePath)
           = filter (\<lambda>e. \<not> startsWith (fst e) ''pandoc-'' \<and> fst e \<noteq> ''__proto__'') metadata"
    and "cleanedMetadata (renderer_convertYamlToPandocArgs h metadata currentFileDir
                            vaultBasePath templateFolder)
           = filter (\<lambda>e. \<not> startsWith (fst e) ''pandoc-'' \<and> fst e \<noteq> ''__proto__'') metadata"
  using assms
  by (simp_all add: main_convertYamlToPandocArgs_def renderer_convertYamlToPandocArgs_def
        main_loop_cleaned renderer_loop_cleaned)

text \<open>What holds of the cleaned metadata in both compilers: no key with the directive
  prefix is in it, and every header field whose key neither carries the prefix nor is
  \<^verbatim>\<open>__proto__\<close> is in it under the same key with the same value.\<close>

lemma cleaned_metadata_other_keys:
  assumes "distinct (map fst metadata)"
    and "cleaned = cleanedMetadata (main_convertYamlToPandocArgs h templateFolder metadata
                                      currentFileDir vaultBasePath)
         \<or> cleaned = cleanedMetadata (renderer_convertYamlToPandocArgs h metadata
                                         currentFileDir vaultBasePath templateFolder)"
  shows "\<forall>k \<in> fst ` set cleaned. \<not> startsWith k ''pandoc-''"
    and "\<forall>(k, v) \<in> set metadata.
           \<not> startsWith k ''pandoc-'' \<and> k \<noteq> ''__proto__'' \<longrightarrow> map_of cleaned k = Some v"
proof -
  let ?kept = "filter (\<lambda>e. \<not> startsWith (fst e) ''pandoc-'' \<and> fst e \<noteq> ''__proto__'') metadata"
  from assms cleaned_is_filter [OF assms(1)] have c: "cleaned = ?kept" by auto
  from assms(1) have "distinct (map fst ?kept)" by (rule distinct_map_filter)
  then have m: "map_of ?kept k = Some v" if "(k, v) \<in> set ?kept" for k v
    using that by simp
  show "\<forall>k \<in> fst ` set cleaned. \<not> startsWith k ''pandoc-''"
    unfolding c by auto
  show "\<forall>(k, v) \<in> set metadata.
          \<not> startsWith k ''pandoc-'' \<and> k \<noteq> ''__proto__'' \<longrightarrow> map_of cleaned k = Some v"
    unfolding c using m by auto
qed

text \<open>
  Claim C5, at the input where the code departs from it. The header field
  \<^verbatim>\<open>__proto__\<close> does not carry the directive prefix, so the claim has it copied into
  the cleaned metadata under the same key with the same value. Both compilers assign it
  with \<^verbatim>\<open>cleanedMetadata[key] = value\<close>, which for this key runs the inherited setter:
  the cleaned metadata holds the title and nothing else.
\<close>

theorem proto_field_not_copied:
  "\<not> startsWith ''__proto__'' ''pandoc-''
   \<and> cleanedMetadata (main_convertYamlToPandocArgs (posix_host ''/home/me'' []) None
                        [(''title'', JStr ''T''), (''__proto__'', JStr ''x'')]
                        ''/vault/notes'' ''/vault'')
       = [(''title'', JStr ''T'')]
   \<and> cleanedMetadata (renderer_convertYamlToPandocArgs (posix_host ''/home/me'' [])
                        [(''title'', JStr ''T''), (''__proto__'', JStr ''x'')]
                        ''/vault/notes'' ''/vault'' None)
       = [(''title'', JStr ''T'')]"
proof -
  have "\<not> startsWith ''__proto__'' ''pandoc-''"
    by (simp add: startsWith_def)
  moreover
  have "cleanedMetadata (main_convertYamlToPandocArgs (posix_host ''/home/me'' []) None
                        [(''title'', JStr ''T''), (''__proto__'', JStr ''x'')]
                        ''/vault/notes'' ''/vault'')
       = [(''title'', JStr ''T'')]"
    by code_simp
  moreover
  have "cleanedMetadata (renderer_convertYamlToPandocArgs (posix_host ''/home/me'' [])
                        [(''title'', JStr ''T''), (''__proto__'', JStr ''x'')]
                        ''/vault/notes'' ''/vault'' None)
       = [(''title'', JStr ''T'')]"
    by code_simp
  ultimately show ?thesis by simp
qed

section \<open>Directives of the markdown export\<close>

lemma main_pushItems_map:
  "main_pushItems h templateFolder currentFileDir vaultBasePath argName items args
     = args @ map (\<lambda>item. ''--'' @ argName @ ''=''
                     @ (if argName \<in> set main_FILE_PATH_ARGUMENTS
                        then main_resolveFilePath h templateFolder (toString item)
                               currentFileDir vaultBasePath
                        else toString item))
               (filter (\<lambda>item. item \<noteq> JNull \<and> item \<noteq> JUndefined) items)"
  by (induction items arbitrary: args) (simp_all add: Let_def)

lemma renderer_pushItems_map:
  "cliArgs (renderer_pushItems h currentFileDir vaultBasePath customTemplateFolder key argName
              items st)
     = cliArgs st
       @ map (\<lambda>item. ''--'' @ argName @ ''=''
                 @ (if argName \<in> set FILE_PATH_ARGUMENTS
                    then renderer_resolveFilePath h (toString item) currentFileDir vaultBasePath
                           customTemplateFolder
                    else toString item))
           (filter (\<lambda>item. item \<noteq> JNull \<and> item \<noteq> JUndefined
                            \<and> isValid (validatePandocOption argName item)) items)"
  by (induction items arbitrary: st) (simp_all add: Let_def)

text \<open>
  Claim C6, as amended. In the compiler of the markdown export an array-valued directive
  adds one token per element that is neither null nor undefined (such elements are passed
  over), in the order of the array; the token of an element is \<^verbatim>\<open>--name=\<close> followed
  by the element's text, or by the resolved path of that text when the option is in the
  list of file-valued names. The compiler of the HTML export does the same with the
  elements that pass validation, when the array value as a whole has passed it.
\<close>

theorem array_directive_tokens:
  assumes "startsWith key ''pandoc-''"
  shows "cliArgs (main_step h templateFolder currentFileDir vaultBasePath (key, JArr items) st)
           = cliArgs st
             @ map (\<lambda>item. ''--'' @ drop 7 key @ ''=''
                       @ (if drop 7 key \<in> set main_FILE_PATH_ARGUMENTS
                          then main_resolveFilePath h templateFolder (toString item)
                                 currentFileDir vaultBasePath
                          else toString item))
                 (filter (\<lambda>item. item \<noteq> JNull \<and> item \<noteq> JUndefined) items)
         \<and> (isValid (validatePandocOption (drop 7 key) (JArr items))
             \<longrightarrow> cliArgs (renderer_step h currentFileDir vaultBasePath templateFolder
                              (key, JArr items) rst)
                   = cliArgs rst
                     @ map (\<lambda>item. ''--'' @ drop 7 key @ ''=''
                               @ (if drop 7 key \<in> set FILE_PATH_ARGUMENTS
                                  then renderer_resolveFilePath h (toString item) currentFileDir
                                         vaultBasePath templateFolder
                                  else toString item))
                         (filter (\<lambda>item. item \<noteq> JNull \<and> item \<noteq> JUndefined
                                          \<and> isValid (validatePandocOption (drop 7 key) item))
                            items))"
  using assms
  by (simp add: main_step_def renderer_step_def Let_def main_pushItems_map renderer_pushItems_map)

theorem array_directive_tokens_witness:
  "startsWith ''pandoc-css'' ''pandoc-''
   \<and> cliArgs (main_step (posix_host ''/home/me'' [''/vault/b.css'']) None ''/vault/notes'' ''/vault''
              (''pandoc-css'', JArr [JStr ''a.css'', JNull, JStr ''b.css''])
              \<lparr>cleanedMetadata = [], cliArgs = [''--toc'']\<rparr>)
     = [''--toc'', ''--css=a.css'', ''--css=/vault/b.css'']
   \<and> startsWith ''pandoc-shift'' ''pandoc-''
   \<and> isValid (validatePandocOption ''shift'' (JArr [JStr ''x'', JNull, JNum ''2'']))
   \<and> cliArgs (renderer_step (posix_host ''/home/me'' []) ''/vault/notes'' ''/vault'' None
                (''pandoc-shift'', JArr [JStr ''x'', JNull, JNum ''2''])
                \<lparr>cleanedMetadata = [], cliArgs = [], notices = []\<rparr>)
       = [''--shift=x'', ''--shift=2'']"
proof -
  let ?h = "posix_host ''/home/me'' [''/vault/b.css'']"
  have k: "startsWith ''pandoc-css'' ''pandoc-''" and k': "startsWith ''pandoc-shift'' ''pandoc-''"
    by (simp_all add: startsWith_def)
  have a: "main_resolveFilePath ?h None ''a.css'' ''/vault/notes'' ''/vault'' = ''a.css''"
    by code_simp
  have b: "main_resolveFilePath ?h None ''b.css'' ''/vault/notes'' ''/vault'' = ''/vault/b.css''"
    by code_simp
  have css: "''css'' \<in> set main_FILE_PATH_ARGUMENTS"
    by (simp add: main_FILE_PATH_ARGUMENTS_def)
  have unknown: "map_of PANDOC_OPTIONS ''shift'' = None"
    by (simp add: PANDOC_OPTIONS_def)
  then have v: "isValid (validatePandocOption ''shift'' x)" for x
    by (simp add: validatePandocOption_def valid_def)
  have nf: "''shift'' \<notin> set FILE_PATH_ARGUMENTS"
    by (simp add: FILE_PATH_ARGUMENTS_def)
  from array_directive_tokens [OF k, of ?h None "''/vault/notes''" "''/vault''"
      "[JStr ''a.css'', JNull, JStr ''b.css'']" "\<lparr>cleanedMetadata = [], cliArgs = [''--toc'']\<rparr>"]
    a b css k
  have first: "cliArgs (main_step ?h None ''/vault/notes'' ''/vault''
              (''pandoc-css'', JArr [JStr ''a.css'', JNull, JStr ''b.css''])
              \<lparr>cleanedMetadata = [], cliArgs = [''--toc'']\<rparr>)
     = [''--toc'', ''--css=a.css'', ''--css=/vault/b.css'']"
    by simp
  from array_directive_tokens [OF k', of "posix_host ''/home/me'' []" None "''/vault/notes''"
      "''/vault''" "[JStr ''x'', JNull, JNum ''2'']" _
      "\<lparr>cleanedMetadata = [], cliArgs = [], notices = []\<rparr>"]
    v nf
  have second: "cliArgs (renderer_step (posix_host ''/home/me'' []) ''/vault/notes'' ''/vault'' None
                (''pandoc-shift'', JArr [JStr ''x'', JNull, JNum ''2''])
                \<lparr>cleanedMetadata = [], cliArgs = [], notices = []\<rparr>)
       = [''--shift=x'', ''--shift=2'']"
    by simp
  from first second k k' v show ?thesis by simp
qed

text \<open>An array value of a registered string, file or choice option does not reach the
  loop over its elements in the compiler of the HTML export: the array as a whole fails
  the validation of a string.\<close>

lemma renderer_rejects_registered_array:
  "cliArgs (renderer_convertYamlToPandocArgs (posix_host ''/home/me'' [])
              [(''pandoc-css'', JArr [JStr ''a.css'', JStr ''b.css''])] ''/vault/notes'' ''/vault'' None)
     = []
   \<and> cliArgs (main_convertYamlToPandocArgs (posix_host ''/home/me'' []) None
                [(''pandoc-css'', JArr [JStr ''a.css'', JStr ''b.css''])] ''/vault/notes'' ''/vault'')
       = [''--css=a.css'', ''--css=b.css'']"
proof -
  have "cliArgs (renderer_convertYamlToPandocArgs (posix_host ''/home/me'' [])
              [(''pandoc-css'', JArr [JStr ''a.css'', JStr ''b.css''])] ''/vault/notes'' ''/vault'' None)
     = []"
    by code_simp
  moreover have "cliArgs (main_convertYamlToPandocArgs (posix_host ''/home/me'' []) None
                [(''pandoc-css'', JArr [JStr ''a.css'', JStr ''b.css''])] ''/vault/notes'' ''/vault'')
       = [''--css=a.css'', ''--css=b.css'']"
    by code_simp
  ultimately show ?thesis by simp
qed

text \<open>The claim as the specification states it (N elements, N tokens) fails on an array
  with a null element: three elements, two tokens.\<close>

theorem array_directive_null_counterexample:
  "cliArgs (main_convertYamlToPandocArgs (posix_host ''/home/me'' []) None
              [(''pandoc-variable'', JArr [JStr ''a'', JNull, JStr ''b''])]
              ''/vault/notes'' ''/vault'')
     = [''--variable=a'', ''--variable=b'']
   \<and> length (cliArgs (main_convertYamlToPandocArgs (posix_host ''/home/me'' []) None
                       [(''pandoc-variable'', JArr [JStr ''a'', JNull, JStr ''b''])]
                       ''/vault/notes'' ''/vault''))
       \<noteq> length [JStr ''a'', JNull, JStr ''b'']"
proof -
  have "cliArgs (main_convertYamlToPandocArgs (posix_host ''/home/me'' []) None
              [(''pandoc-variable'', JArr [JStr ''a'', JNull, JStr ''b''])]
              ''/vault/notes'' ''/vault'')
        = [''--variable=a'', ''--variable=b'']"
    by code_simp
  then show ?thesis by simp
qed


section \<open>Validation in the two compilers\<close>

text \<open>What the compiler of the HTML export does with a directive: an invalid value adds
  one notice and no token.\<close>

lemma renderer_invalid_directive:
  assumes "startsWith key ''pandoc-''"
    and "\<not> isValid (validatePandocOption (drop 7 key) v)"
  shows "renderer_step h currentFileDir vaultBasePath customTemplateFolder (key, v) st
           = st\<lparr>notices := notices st
                  @ [''Pandoc argument validation error: ''
                     @ errorText (validatePandocOption (drop 7 key) v)]\<rparr>"
  using assms by (simp add: renderer_step_def Let_def)

lemma renderer_scalar_directive:
  assumes "startsWith key ''pandoc-''"
    and "isValid (validatePandocOption (drop 7 key) (JStr s))"
  shows "renderer_step h currentFileDir vaultBasePath customTemplateFolder (key, JStr s) st
           = st\<lparr>cliArgs := cliArgs st
                  @ [''--'' @ drop 7 key @ ''=''
                     @ (if drop 7 key \<in> set FILE_PATH_ARGUMENTS
                        then renderer_resolveFilePath h s currentFileDir vaultBasePath
                               customTemplateFolder
                        else s)]\<rparr>"
  using assms by (simp add: renderer_step_def Let_def)

lemma renderer_boolean_directive:
  assumes "startsWith key ''pandoc-''"
    and "map_of PANDOC_OPTIONS (drop 7 key) = Some schema"
    and "type schema = TBoolean"
  shows "cliArgs (renderer_step h currentFileDir vaultBasePath customTemplateFolder
                    (key, JBool True) st)
           = cliArgs st @ [if flagOnly schema = Some True then ''--'' @ drop 7 key
                           else ''--'' @ drop 7 key @ ''=true'']"
    and "cliArgs (renderer_step h currentFileDir vaultBasePath customTemplateFolder
                    (key, JBool False) st) = cliArgs st"
  using assms
  by (simp_all add: renderer_step_def Let_def validatePandocOption_def valid_def invalid_def
        isFlagOnlyOption_def)

lemma main_boolean_directive:
  assumes "startsWith key ''pandoc-''"
  shows "cliArgs (main_step h templateFolder currentFileDir vaultBasePath (key, JBool True) st)
           = cliArgs st @ [''--'' @ drop 7 key]"
    and "cliArgs (main_step h templateFolder currentFileDir vaultBasePath (key, JBool False) st)
           = cliArgs st"
  using assms by (simp_all add: main_step_def Let_def)

lemma choice_validation:
  assumes "map_of PANDOC_OPTIONS optionName = Some schema"
    and "type schema = TChoice"
    and "choices schema = Some cs"
  shows "isValid (validatePandocOption optionName v) \<longleftrightarrow> (\<exists>s. v = JStr s \<and> s \<in> set cs)"
  using assms
  by (cases v) (simp_all add: validatePandocOption_def valid_def invalid_def)

lemma includes_str_prefix:
  "startsWith s p \<Longrightarrow> includes_str s p"
  by (cases s) (auto simp: startsWith_def)

lemma includes_str_append:
  "includes_str (a @ p @ b) p"
proof (induction a)
  case Nil
  have "startsWith (p @ b) p" by (simp add: startsWith_def)
  then show ?case by (simp add: includes_str_prefix)
next
  case (Cons x a)
  then show ?case by simp
qed

lemma number_validation:
  assumes "map_of PANDOC_OPTIONS optionName = Some schema"
    and "type schema = TNumber"
  shows "isValid (validatePandocOption optionName (JNum n)) \<longleftrightarrow> n \<noteq> ''NaN''"
    and "isValid (validatePandocOption optionName (JStr s)) \<longleftrightarrow> \<not> parseFloat_isNaN s"
    and "parseFloat_isNaN s \<Longrightarrow>
           includes_str (errorText (validatePandocOption optionName (JStr s))) ''number''"
proof -
  show "isValid (validatePandocOption optionName (JNum n)) \<longleftrightarrow> n \<noteq> ''NaN''"
    using assms by (simp add: validatePandocOption_def valid_def invalid_def)
  show "isValid (validatePandocOption optionName (JStr s)) \<longleftrightarrow> \<not> parseFloat_isNaN s"
    using assms by (simp add: validatePandocOption_def valid_def invalid_def)
  assume nan: "parseFloat_isNaN s"
  have "errorText (validatePandocOption optionName (JStr s))
          = (''Option '' @ [sq] @ optionName @ [sq] @ '' expects a '') @ ''number''
            @ ('', got '' @ [sq] @ s @ [sq])"
    using assms nan by (simp add: validatePandocOption_def invalid_def errorText_def)
  then show "includes_str (errorText (validatePandocOption optionName (JStr s))) ''number''"
    by (simp only: includes_str_append)
qed

text \<open>
  Claim C1, at the input where the markdown export departs from it. \<^verbatim>\<open>standalone\<close>
  is registered as a boolean that is not flag-only. The compiler of the markdown export
  (\<^verbatim>\<open>main.ts\<close>) emits the bare switch for it, the compiler of the HTML export
  (\<^verbatim>\<open>renderer.ts\<close>, which the former says it duplicates) emits the value form.
\<close>

theorem markdown_export_ignores_flag_kind:
  "map_of PANDOC_OPTIONS ''standalone''
     = Some \<lparr>type = TBoolean, flagOnly = None, choices = None, allowMultiple = None\<rparr>
   \<and> cliArgs (main_convertYamlToPandocArgs (posix_host ''/home/me'' []) None
                [(''pandoc-standalone'', JBool True)] ''/vault/notes'' ''/vault'')
       = [''--standalone'']
   \<and> cliArgs (renderer_convertYamlToPandocArgs (posix_host ''/home/me'' [])
                [(''pandoc-standalone'', JBool True)] ''/vault/notes'' ''/vault'' None)
       = [''--standalone=true'']"
proof -
  have "map_of PANDOC_OPTIONS ''standalone''
     = Some \<lparr>type = TBoolean, flagOnly = None, choices = None, allowMultiple = None\<rparr>"
    by (simp add: PANDOC_OPTIONS_def)
  moreover have "cliArgs (main_convertYamlToPandocArgs (posix_host ''/home/me'' []) None
                [(''pandoc-standalone'', JBool True)] ''/vault/notes'' ''/vault'')
       = [''--standalone'']"
    by code_simp
  moreover have "cliArgs (renderer_convertYamlToPandocArgs (posix_host ''/home/me'' [])
                [(''pandoc-standalone'', JBool True)] ''/vault/notes'' ''/vault'' None)
       = [''--standalone=true'']"
    by code_simp
  ultimately show ?thesis by simp
qed

text \<open>
  Claim C2, at the input where the markdown export departs from it. The value
  \<^verbatim>\<open>invalid-engine\<close> is outside the choices of \<^verbatim>\<open>pdf-engine\<close>. The compiler of
  the markdown export emits a token for it and has no diagnostic to give; the compiler of
  the HTML export emits none, raises one notice and goes on to the next directive.
\<close>

theorem markdown_export_keeps_invalid_choice:
  "cliArgs (main_convertYamlToPandocArgs (posix_host ''/home/me'' []) None
              [(''pandoc-pdf-engine'', JStr ''invalid-engine''), (''pandoc-wrap'', JStr ''none'')]
              ''/vault/notes'' ''/vault'')
     = [''--pdf-engine=invalid-engine'', ''--wrap=none'']
   \<and> cliArgs (renderer_convertYamlToPandocArgs (posix_host ''/home/me'' [])
                [(''pandoc-pdf-engine'', JStr ''invalid-engine''), (''pandoc-wrap'', JStr ''none'')]
                ''/vault/notes'' ''/vault'' None)
       = [''--wrap=none'']
   \<and> length (notices (renderer_convertYamlToPandocArgs (posix_host ''/home/me'' [])
                [(''pandoc-pdf-engine'', JStr ''invalid-engine''), (''pandoc-wrap'', JStr ''none'')]
                ''/vault/notes'' ''/vault'' None)) = 1"
proof -
  have "cliArgs (main_convertYamlToPandocArgs (posix_host ''/home/me'' []) None
              [(''pandoc-pdf-engine'', JStr ''invalid-engine''), (''pandoc-wrap'', JStr ''none'')]
              ''/vault/notes'' ''/vault'')
     = [''--pdf-engine=invalid-engine'', ''--wrap=none'']"
    by code_simp
  moreover have "cliArgs (renderer_convertYamlToPandocArgs (posix_host ''/home/me'' [])
                [(''pandoc-pdf-engine'', JStr ''invalid-engine''), (''pandoc-wrap'', JStr ''none'')]
                ''/vault/notes'' ''/vault'' None)
       = [''--wrap=none'']"
    by code_simp
  moreover have "length (notices (renderer_convertYamlToPandocArgs (posix_host ''/home/me'' [])
                [(''pandoc-pdf-engine'', JStr ''invalid-engine''), (''pandoc-wrap'', JStr ''none'')]
                ''/vault/notes'' ''/vault'' None)) = 1"
    by code_simp
  ultimately show ?thesis by simp
qed

text \<open>
  Claim C8, at the input where the markdown export departs from it. The string
  \<^verbatim>\<open>not-a-number\<close> does not parse as a number. The compiler of the markdown export
  emits a token for it; the compiler of the HTML export emits none and raises one notice,
  whose text mentions \<^verbatim>\<open>number\<close>.
\<close>

theorem markdown_export_keeps_non_number:
  "cliArgs (main_convertYamlToPandocArgs (posix_host ''/home/me'' []) None
              [(''pandoc-toc-depth'', JStr ''not-a-number'')] ''/vault/notes'' ''/vault'')
     = [''--toc-depth=not-a-number'']
   \<and> cliArgs (renderer_convertYamlToPandocArgs (posix_host ''/home/me'' [])
                [(''pandoc-toc-depth'', JStr ''not-a-number'')] ''/vault/notes'' ''/vault'' None)
       = []
   \<and> notices (renderer_convertYamlToPandocArgs (posix_host ''/home/me'' [])
                [(''pandoc-toc-depth'', JStr ''not-a-number'')] ''/vault/notes'' ''/vault'' None)
       = [''Pandoc argument validation error: Option '' @ [sq] @ ''toc-depth'' @ [sq]
          @ '' expects a number, got '' @ [sq] @ ''not-a-number'' @ [sq]]"
proof -
  have "cliArgs (main_convertYamlToPandocArgs (posix_host ''/home/me'' []) None
              [(''pandoc-toc-depth'', JStr ''not-a-number'')] ''/vault/notes'' ''/vault'')
     = [''--toc-depth=not-a-number'']"
    by code_simp
  moreover have "cliArgs (renderer_convertYamlToPandocArgs (posix_host ''/home/me'' [])
                [(''pandoc-toc-depth'', JStr ''not-a-number'')] ''/vault/notes'' ''/vault'' None)
       = []"
    by code_simp
  moreover have "notices (renderer_convertYamlToPandocArgs (posix_host ''/home/me'' [])
                [(''pandoc-toc-depth'', JStr ''not-a-number'')] ''/vault/notes'' ''/vault'' None)
       = [''Pandoc argument validation error: Option '' @ [sq] @ ''toc-depth'' @ [sq]
          @ '' expects a number, got '' @ [sq] @ ''not-a-number'' @ [sq]]"
    by code_simp
  ultimately show ?thesis by simp
qed


section \<open>The shape of the tokens\<close>

lemma shaped_value: "spec_shaped name (''--'' @ name @ ''='' @ x)"
  by (simp add: spec_shaped_def startsWith_def)

lemma shaped_switch: "spec_shaped name (''--'' @ name)"
  by (simp add: spec_shaped_def)

lemma main_step_tokens:
  assumes "t \<in> set (cliArgs (main_step h templateFolder currentFileDir vaultBasePath (k, v) st))"
  shows "t \<in> set (cliArgs st) \<or> (startsWith k ''pandoc-'' \<and> spec_shaped (drop 7 k) t)"
proof (cases "startsWith k ''pandoc-''")
  case False
  with assms show ?thesis by (simp add: main_step_def)
next
  case True
  show ?thesis
  proof (cases v)
    case (JArr items)
    with assms True show ?thesis
      using shaped_value [of "drop 7 k"]
      by (auto simp: main_step_def Let_def main_pushItems_map)
  next
    case (JBool b)
    with assms True show ?thesis
      using shaped_switch [of "drop 7 k"]
      by (cases b) (auto simp: main_step_def Let_def)
  qed (use assms True shaped_value [of "drop 7 k"] in
        \<open>auto simp: main_step_def Let_def split: if_splits\<close>)
qed

lemma main_loop_tokens:
  assumes "t \<in> set (cliArgs (main_loop h templateFolder currentFileDir vaultBasePath entries st))"
  shows "t \<in> set (cliArgs st)
         \<or> (\<exists>k \<in> fst ` set entries. startsWith k ''pandoc-'' \<and> spec_shaped (drop 7 k) t)"
  using assms
proof (induction entries arbitrary: st)
  case Nil
  then show ?case by simp
next
  case (Cons entry entries)
  obtain k v where entry: "entry = (k, v)" by (cases entry)
  from Cons.IH [OF Cons.prems [unfolded main_loop.simps]]
  have "t \<in> set (cliArgs (main_step h templateFolder currentFileDir vaultBasePath entry st))
        \<or> (\<exists>k \<in> fst ` set entries. startsWith k ''pandoc-'' \<and> spec_shaped (drop 7 k) t)" .
  then show ?case
  proof
    assume "t \<in> set (cliArgs (main_step h templateFolder currentFileDir vaultBasePath entry st))"
    from main_step_tokens [OF this [unfolded entry]] entry show ?thesis by auto
  next
    assume "\<exists>k \<in> fst ` set entries. startsWith k ''pandoc-'' \<and> spec_shaped (drop 7 k) t"
    then show ?thesis by auto
  qed
qed

lemma renderer_pushItems_tokens:
  assumes "t \<in> set (cliArgs (renderer_pushItems h currentFileDir vaultBasePath customTemplateFolder
                                key argName items st))"
  shows "t \<in> set (cliArgs st) \<or> spec_shaped argName t"
  using assms
proof (induction items arbitrary: st)
  case Nil
  then show ?case by simp
next
  case (Cons item items)
  from Cons.IH [OF Cons.prems [unfolded renderer_pushItems.simps]]
  show ?case
    using shaped_value [of argName]
    by (auto simp: Let_def split: if_splits)
qed

lemma renderer_step_tokens:
  assumes "t \<in> set (cliArgs (renderer_step h currentFileDir vaultBasePath customTemplateFolder
                                (k, v) st))"
  shows "t \<in> set (cliArgs st) \<or> (startsWith k ''pandoc-'' \<and> spec_shaped (drop 7 k) t)"
proof (cases "startsWith k ''pandoc-''")
  case False
  with assms show ?thesis by (simp add: renderer_step_def)
next
  case True
  show ?thesis
  proof (cases "isValid (validatePandocOption (drop 7 k) v)")
    case False
    with assms True show ?thesis by (simp add: renderer_step_def Let_def)
  next
    case valid: True
    show ?thesis
    proof (cases v)
      case (JArr items)
      with assms True valid
      have "t \<in> set (cliArgs (renderer_pushItems h currentFileDir vaultBasePath
                                customTemplateFolder k (drop 7 k) items st))"
        by (simp add: renderer_step_def Let_def)
      from renderer_pushItems_tokens [OF this] True show ?thesis by simp
    next
      case (JBool b)
      with assms True valid show ?thesis
        using shaped_switch [of "drop 7 k"] shaped_value [of "drop 7 k" "''true''"]
        by (cases b) (auto simp: renderer_step_def Let_def split: if_splits)
    qed (use assms True valid shaped_value [of "drop 7 k"] in
          \<open>auto simp: renderer_step_def Let_def split: if_splits\<close>)
  qed
qed

lemma renderer_loop_tokens:
  assumes "t \<in> set (cliArgs (renderer_loop h currentFileDir vaultBasePath customTemplateFolder
                                entries st))"
  shows "t \<in> set (cliArgs st)
         \<or> (\<exists>k \<in> fst ` set entries. startsWith k ''pandoc-'' \<and> spec_shaped (drop 7 k) t)"
  using assms
proof (induction entries arbitrary: st)
  case Nil
  then show ?case by simp
next
  case (Cons entry entries)
  obtain k v where entry: "entry = (k, v)" by (cases entry)
  from Cons.IH [OF Cons.prems [unfolded renderer_loop.simps]]
  have "t \<in> set (cliArgs (renderer_step h currentFileDir vaultBasePath customTemplateFolder entry st))
        \<or> (\<exists>k \<in> fst ` set entries. startsWith k ''pandoc-'' \<and> spec_shaped (drop 7 k) t)" .
  then show ?case
  proof
    assume "t \<in> set (cliArgs (renderer_step h currentFileDir vaultBasePath customTemplateFolder
                                 entry st))"
    from renderer_step_tokens [OF this [unfolded entry]] entry show ?thesis by auto
  next
    assume "\<exists>k \<in> fst ` set entries. startsWith k ''pandoc-'' \<and> spec_shaped (drop 7 k) t"
    then show ?thesis by auto
  qed
qed

lemma directive_name_nonempty:
  assumes "startsWith k ''pandoc-''" and "k \<noteq> ''pandoc-''"
  shows "drop 7 k \<noteq> []"
proof
  assume "drop 7 k = []"
  moreover have l: "length ''pandoc-'' = (7::nat)" by simp
  from assms(1) [unfolded startsWith_def l] have "take 7 k = ''pandoc-''" .
  ultimately have "k = ''pandoc-''"
    using append_take_drop_id [of 7 k] by simp
  with assms(2) show False by simp
qed

lemma main_scalar_directive:
  assumes "startsWith key ''pandoc-''" and "spec_scalar v"
  shows "cliArgs (main_step h templateFolder currentFileDir vaultBasePath (key, v) st)
           = cliArgs st @ [''--'' @ drop 7 key @ ''=''
                           @ (if drop 7 key \<in> set main_FILE_PATH_ARGUMENTS
                              then main_resolveFilePath h templateFolder (toString v)
                                     currentFileDir vaultBasePath
                              else toString v)]"
  using assms by (cases v) (simp_all add: main_step_def Let_def spec_scalar_def)

lemma renderer_scalar_token:
  assumes "startsWith key ''pandoc-''" and "spec_scalar v"
    and "isValid (validatePandocOption (drop 7 key) v)"
  shows "cliArgs (renderer_step h currentFileDir vaultBasePath customTemplateFolder (key, v) st)
           = cliArgs st @ [''--'' @ drop 7 key @ ''=''
                           @ (if drop 7 key \<in> set FILE_PATH_ARGUMENTS
                              then renderer_resolveFilePath h (toString v) currentFileDir
                                     vaultBasePath customTemplateFolder
                              else toString v)]"
  using assms by (cases v) (simp_all add: renderer_step_def Let_def spec_scalar_def)

subsection \<open>The parser on a line of arguments\<close>

lemma splitOn_nonempty: "splitOn d s \<noteq> []"
  by (induction s) (auto split: list.splits)

lemma join_splitOn: "join [d] (splitOn d s) = s"
proof (induction s)
  case Nil
  show ?case by simp
next
  case (Cons c cs)
  obtain w ws where sp: "splitOn d cs = w # ws"
    using splitOn_nonempty [of d cs] by (cases "splitOn d cs") auto
  with Cons show ?case
    by (cases ws) auto
qed

lemma splitOn_head:
  "d \<notin> set a \<Longrightarrow> splitOn d (a @ d # b) = a # splitOn d b"
  by (induction a) (auto split: list.splits)

lemma plain_equals: "isPlain CHR ''=''"
  by (simp add: isPlain_def isSpace_def sq_def dq_def)

lemma quote_not_plain: "\<not> isPlain dq" "\<not> isPlain sq" "sq \<noteq> dq"
  by (simp_all add: isPlain_def sq_def dq_def)

lemma space_not_quote: "isSpace c \<Longrightarrow> c \<noteq> dq \<and> c \<noteq> sq \<and> \<not> isPlain c"
  by (auto simp: isSpace_def isPlain_def dq_def sq_def)

text \<open>The group does not match at the end of the string nor at white space.\<close>

lemma matchAlternative_stop:
  assumes "rest = [] \<or> isSpace (hd rest)"
  shows "matchAlternative rest = None"
  using assms space_not_quote [of "hd rest"]
  by (cases rest) (auto simp: matchAlternative_def)

lemma matchGroup_stop:
  assumes "rest = [] \<or> isSpace (hd rest)"
  shows "matchGroup rest = ([], rest)"
  by (subst matchGroup.simps) (simp add: matchAlternative_stop [OF assms])

lemma matchQuoted_closed:
  assumes "q \<notin> set v"
  shows "matchQuoted q (v @ q # rest) = Some (q # v @ [q], rest)"
proof -
  from assms have "dropWhile (\<lambda>x. x \<noteq> q) (v @ q # rest) = q # rest"
    by (induction v) auto
  moreover from assms have "takeWhile (\<lambda>x. x \<noteq> q) (v @ q # rest) = v"
    by (induction v) auto
  ultimately show ?thesis by (simp add: matchQuoted_def)
qed

lemma matchAlternative_plain:
  assumes "a \<noteq> []" and "list_all isPlain a" and "rest = [] \<or> \<not> isPlain (hd rest)"
  shows "matchAlternative (a @ rest) = Some (a, rest)"
proof -
  from assms(1) obtain c cs' where a: "a = c # cs'" by (cases a) auto
  with assms(2) have c: "isPlain c" by simp
  have all: "isPlain x" if "x \<in> set a" for x
    using that assms(2) by (simp add: list_all_iff)
  have rest_take: "takeWhile isPlain rest = []" and rest_drop: "dropWhile isPlain rest = rest"
    using assms(3) by (cases rest; simp)+
  have tk: "takeWhile isPlain (a @ rest) = a"
    using takeWhile_append2 [of a isPlain rest] all rest_take by simp
  have dr: "dropWhile isPlain (a @ rest) = rest"
    using dropWhile_append2 [of a isPlain rest] all rest_drop by simp
  define cs where "cs = cs' @ rest"
  have ar: "a @ rest = c # cs" using a by (simp add: cs_def)
  show ?thesis
    using c tk dr unfolding ar by (simp add: matchAlternative_def)
qed

lemma matchGroup_word:
  assumes "a \<noteq> []" and "list_all isPlain a" and "rest = [] \<or> isSpace (hd rest)"
  shows "matchGroup (a @ rest) = (a, rest)"
proof -
  from assms(3) have np: "rest = [] \<or> \<not> isPlain (hd rest)"
    using space_not_quote by auto
  show ?thesis
    by (subst matchGroup.simps)
       (simp add: matchAlternative_plain [OF assms(1,2) np] matchGroup_stop [OF assms(3)])
qed

lemma matchGroup_quoted_value:
  assumes "list_all isPlain flag" and "q = dq \<or> q = sq" and "q \<notin> set v"
    and "rest = [] \<or> isSpace (hd rest)"
  shows "matchGroup (flag @ ''='' @ [q] @ v @ [q] @ rest) = (flag @ ''='' @ [q] @ v @ [q], rest)"
proof -
  define fpart where "fpart = flag @ ''=''"
  define qpart where "qpart = q # v @ q # rest"
  from assms(2) have nq: "\<not> isPlain q" using quote_not_plain by auto
  have fne: "fpart \<noteq> []" by (simp add: fpart_def)
  have fall: "list_all isPlain fpart"
    using assms(1) plain_equals by (simp add: fpart_def)
  have qhd: "qpart = [] \<or> \<not> isPlain (hd qpart)"
    using nq by (simp add: qpart_def)
  have one: "matchAlternative (fpart @ qpart) = Some (fpart, qpart)"
    by (rule matchAlternative_plain [OF fne fall qhd])
  have two: "matchAlternative qpart = Some (q # v @ [q], rest)"
    using assms(2) nq quote_not_plain matchQuoted_closed [OF assms(3), of rest]
    by (auto simp: matchAlternative_def qpart_def)
  have "matchGroup qpart = (q # v @ [q], rest)"
    by (subst matchGroup.simps) (simp add: two matchGroup_stop [OF assms(4)])
  then have "matchGroup (fpart @ qpart) = (fpart @ q # v @ [q], rest)"
    by (subst matchGroup.simps) (simp add: one)
  then show ?thesis by (simp add: fpart_def qpart_def)
qed

lemma matchGroup_written:
  assumes "spec_wellWritten a" and "rest = [] \<or> isSpace (hd rest)"
  shows "matchGroup (spec_written a @ rest) = (spec_written a, rest)"
proof (cases a)
  case (Word w)
  with assms show ?thesis by (simp add: matchGroup_word)
next
  case (QuotedValue flag q v)
  with assms matchGroup_quoted_value [of flag q v rest] show ?thesis by simp
qed

lemma written_nonempty: "spec_wellWritten a \<Longrightarrow> spec_written a \<noteq> []"
  by (cases a) simp_all

lemma matchAll_written:
  assumes "spec_wellWritten a" and "rest = [] \<or> isSpace (hd rest)"
  shows "matchAll (spec_written a @ rest) = spec_written a # matchAll rest"
  using matchGroup_written [OF assms] written_nonempty [OF assms(1)]
  by (subst matchAll.simps) simp

lemma matchAll_skip:
  assumes "list_all isSpace sp"
  shows "matchAll (sp @ s) = matchAll s"
  using assms
proof (induction sp)
  case Nil
  show ?case by simp
next
  case (Cons c sp)
  then have "matchGroup (c # sp @ s) = ([], c # sp @ s)"
    by (intro matchGroup_stop) simp
  then have "matchAll (c # sp @ s) = matchAll (sp @ s)"
    by (subst matchAll.simps) simp
  with Cons show ?case by simp
qed

lemma matchAll_space:
  assumes "list_all isSpace trail"
  shows "matchAll trail = []"
  using matchAll_skip [OF assms, of "[]"] by (simp add: matchAll.simps [of "[]"])

lemma space_head:
  "list_all isSpace sp \<Longrightarrow> sp @ s = [] \<or> sp \<noteq> [] \<Longrightarrow> sp @ s = [] \<or> isSpace (hd (sp @ s))"
  by (cases sp) auto

lemma separated_head:
  "spec_separated (x # rest) \<Longrightarrow> list_all isSpace (fst x) \<and> spec_wellWritten (snd x)"
  by (cases rest) simp_all

lemma matchAll_layout:
  assumes "spec_separated line" and "list_all isSpace trail"
  shows "matchAll (spec_layout line @ trail) = map (\<lambda>x. spec_written (snd x)) line"
  using assms(1)
proof (induction line rule: spec_separated.induct)
  case 1
  show ?case by (simp add: spec_layout_def matchAll_space [OF assms(2)])
next
  case (2 x)
  then have sp: "list_all isSpace (fst x)" and w: "spec_wellWritten (snd x)" by simp_all
  from assms(2) have stop: "trail = [] \<or> isSpace (hd trail)" by (cases trail) simp_all
  have "matchAll (fst x @ spec_written (snd x) @ trail) = matchAll (spec_written (snd x) @ trail)"
    by (rule matchAll_skip [OF sp])
  also have "\<dots> = spec_written (snd x) # matchAll trail"
    by (rule matchAll_written [OF w stop])
  finally show ?case by (simp add: spec_layout_def matchAll_space [OF assms(2)])
next
  case (3 x y rest)
  then have sp: "list_all isSpace (fst x)" and w: "spec_wellWritten (snd x)"
    and ne: "fst y \<noteq> []" and tl: "spec_separated (y # rest)"
    by simp_all
  from separated_head [OF tl] have spy: "list_all isSpace (fst y)" by simp
  define after where "after = spec_layout (y # rest) @ trail"
  have after_eq: "after = fst y @ (spec_written (snd y) @ spec_layout rest @ trail)"
    by (simp add: after_def spec_layout_def)
  have stop: "after = [] \<or> isSpace (hd after)"
    unfolding after_eq using spy ne by (cases "fst y") simp_all
  have whole: "spec_layout (x # y # rest) @ trail = fst x @ spec_written (snd x) @ after"
    by (simp add: after_def spec_layout_def)
  have "matchAll (fst x @ spec_written (snd x) @ after) = matchAll (spec_written (snd x) @ after)"
    by (rule matchAll_skip [OF sp])
  also have "\<dots> = spec_written (snd x) # matchAll after"
    by (rule matchAll_written [OF w stop])
  finally show ?case
    using "3.IH" [OF tl] unfolding whole after_def by simp
qed

lemma stripQuotes_quoted:
  assumes "q = dq \<or> q = sq"
  shows "stripQuotes (q # v @ [q]) = v"
  using assms by (auto simp: stripQuotes_def startsWith_def endsWith_def)

lemma stripQuotes_plain:
  assumes "list_all isPlain v"
  shows "stripQuotes v = v"
  using assms quote_not_plain
  by (cases v) (auto simp: stripQuotes_def startsWith_def)

lemma processArg_word:
  assumes "list_all isPlain a"
  shows "processArg a = a"
proof (cases "CHR ''='' \<in> set a")
  case False
  then show ?thesis by (simp add: processArg_def)
next
  case True
  then obtain f b where a: "a = f @ CHR ''='' # b" and nf: "CHR ''='' \<notin> set f"
    by (auto dest: split_list_first)
  from assms a have pb: "list_all isPlain b" by simp
  have sp: "splitOn CHR ''='' a = f # splitOn CHR ''='' b"
    unfolding a using nf by (rule splitOn_head)
  from True have "processArg a = f @ ''='' @ stripQuotes b"
    by (simp add: processArg_def sp join_splitOn)
  with stripQuotes_plain [OF pb] a show ?thesis by simp
qed

lemma processArg_quoted:
  assumes "CHR ''='' \<notin> set flag" and "q = dq \<or> q = sq"
  shows "processArg (flag @ ''='' @ [q] @ v @ [q]) = flag @ ''='' @ v"
proof -
  define qpart where "qpart = q # v @ [q]"
  define s where "s = flag @ CHR ''='' # qpart"
  have s_eq: "flag @ ''='' @ [q] @ v @ [q] = s" by (simp add: s_def qpart_def)
  have sp: "splitOn CHR ''='' s = flag # splitOn CHR ''='' qpart"
    unfolding s_def using assms(1) by (rule splitOn_head)
  have "CHR ''='' \<in> set s" by (simp add: s_def)
  then have "processArg s = flag @ ''='' @ stripQuotes qpart"
    by (simp add: processArg_def sp join_splitOn)
  also have "stripQuotes qpart = v"
    unfolding qpart_def using assms(2) by (rule stripQuotes_quoted)
  finally show ?thesis unfolding s_eq .
qed

lemma processArg_written:
  assumes "spec_wellWritten a"
  shows "processArg (spec_written a) = spec_token a"
proof (cases a)
  case (Word w)
  with assms show ?thesis by (simp add: processArg_word)
next
  case (QuotedValue flag q v)
  with assms processArg_quoted [of flag q v] show ?thesis by simp
qed

lemma separated_all:
  "spec_separated line \<Longrightarrow> x \<in> set line \<Longrightarrow> spec_wellWritten (snd x)"
  by (induction line rule: spec_separated.induct) auto

lemma parse_layout:
  assumes "spec_separated line" and "list_all isSpace trail"
  shows "parseArgumentString (spec_layout line @ trail) = map (\<lambda>x. spec_token (snd x)) line"
  using separated_all [OF assms(1)]
  by (simp add: parseArgumentString_def matchAll_layout [OF assms] processArg_written)

text \<open>
  Claim C7, as amended. Every token compiled from the directives of a header in which no
  directive has the empty name (the bare key \<^verbatim>\<open>pandoc-\<close>) has the shape
  \<^verbatim>\<open>--name\<close> or \<^verbatim>\<open>--name=value\<close>, where \<^verbatim>\<open>name\<close> is the key of a directive
  of that header without its prefix; this holds in both compilers. A directive whose
  value is a string, a number or an object gives exactly one token
  \<^verbatim>\<open>--name=value\<close> whatever the value holds, white space included (in the compiler of
  the HTML export: when the value passes validation). The parser of the extra-argument
  strings gives no shape of its own to what the user wrote: on a line of arguments
  separated by white space, each a word without white space and quotes or a flag,
  \<^verbatim>\<open>=\<close> and a value between double or single quotes (the value free of that quote),
  it returns one token per argument, in order: the word as it is, and for a quoted value
  the flag, \<^verbatim>\<open>=\<close> and the value without its quotes, never split at the white space
  inside.
\<close>

theorem tokens_shaped_and_unsplit:
  "(''pandoc-'' \<notin> fst ` set metadata
    \<longrightarrow> (\<forall>t \<in> set (cliArgs (main_convertYamlToPandocArgs h templateFolder metadata
                                currentFileDir vaultBasePath)).
           \<exists>k \<in> fst ` set metadata. startsWith k ''pandoc-'' \<and> spec_wellFormed (drop 7 k) t)
        \<and> (\<forall>t \<in> set (cliArgs (renderer_convertYamlToPandocArgs h metadata currentFileDir
                                  vaultBasePath templateFolder)).
             \<exists>k \<in> fst ` set metadata. startsWith k ''pandoc-'' \<and> spec_wellFormed (drop 7 k) t))
   \<and> (startsWith key ''pandoc-'' \<and> spec_scalar v
       \<longrightarrow> cliArgs (main_step h templateFolder currentFileDir vaultBasePath (key, v) st)
             = cliArgs st @ [''--'' @ drop 7 key @ ''=''
                             @ (if drop 7 key \<in> set main_FILE_PATH_ARGUMENTS
                                then main_resolveFilePath h templateFolder (toString v)
                                       currentFileDir vaultBasePath
                                else toString v)])
   \<and> (startsWith key ''pandoc-'' \<and> spec_scalar v
       \<and> isValid (validatePandocOption (drop 7 key) v)
       \<longrightarrow> cliArgs (renderer_step h currentFileDir vaultBasePath templateFolder (key, v) rst)
             = cliArgs rst @ [''--'' @ drop 7 key @ ''=''
                              @ (if drop 7 key \<in> set FILE_PATH_ARGUMENTS
                                 then renderer_resolveFilePath h (toString v) currentFileDir
                                        vaultBasePath templateFolder
                                 else toString v)])
   \<and> (spec_separated line \<and> list_all isSpace trail
       \<longrightarrow> parseArgumentString (spec_layout line @ trail)
             = map (\<lambda>x. spec_token (snd x)) line)"
proof (intro conjI impI ballI)
  fix t
  assume bare: "''pandoc-'' \<notin> fst ` set metadata"
    and "t \<in> set (cliArgs (main_convertYamlToPandocArgs h templateFolder metadata
                             currentFileDir vaultBasePath))"
  from main_loop_tokens [OF this(2) [unfolded main_convertYamlToPandocArgs_def]]
  obtain k where k: "k \<in> fst ` set metadata" "startsWith k ''pandoc-''"
      "spec_shaped (drop 7 k) t"
    by auto
  from k(1) bare have "k \<noteq> ''pandoc-''" by metis
  from directive_name_nonempty [OF k(2) this] k
  show "\<exists>k \<in> fst ` set metadata. startsWith k ''pandoc-'' \<and> spec_wellFormed (drop 7 k) t"
    by (auto simp: spec_wellFormed_def)
next
  fix t
  assume bare: "''pandoc-'' \<notin> fst ` set metadata"
    and "t \<in> set (cliArgs (renderer_convertYamlToPandocArgs h metadata currentFileDir
                             vaultBasePath templateFolder))"
  from renderer_loop_tokens [OF this(2) [unfolded renderer_convertYamlToPandocArgs_def]]
  obtain k where k: "k \<in> fst ` set metadata" "startsWith k ''pandoc-''"
      "spec_shaped (drop 7 k) t"
    by auto
  from k(1) bare have "k \<noteq> ''pandoc-''" by metis
  from directive_name_nonempty [OF k(2) this] k
  show "\<exists>k \<in> fst ` set metadata. startsWith k ''pandoc-'' \<and> spec_wellFormed (drop 7 k) t"
    by (auto simp: spec_wellFormed_def)
next
  assume "startsWith key ''pandoc-'' \<and> spec_scalar v"
  then show "cliArgs (main_step h templateFolder currentFileDir vaultBasePath (key, v) st)
             = cliArgs st @ [''--'' @ drop 7 key @ ''=''
                             @ (if drop 7 key \<in> set main_FILE_PATH_ARGUMENTS
                                then main_resolveFilePath h templateFolder (toString v)
                                       currentFileDir vaultBasePath
                                else toString v)]"
    by (intro main_scalar_directive) simp_all
next
  assume "startsWith key ''pandoc-'' \<and> spec_scalar v
          \<and> isValid (validatePandocOption (drop 7 key) v)"
  then show "cliArgs (renderer_step h currentFileDir vaultBasePath templateFolder (key, v) rst)
             = cliArgs rst @ [''--'' @ drop 7 key @ ''=''
                              @ (if drop 7 key \<in> set FILE_PATH_ARGUMENTS
                                 then renderer_resolveFilePath h (toString v) currentFileDir
                                        vaultBasePath templateFolder
                                 else toString v)]"
    by (intro renderer_scalar_token) simp_all
next
  assume "spec_separated line \<and> list_all isSpace trail"
  then show "parseArgumentString (spec_layout line @ trail) = map (\<lambda>x. spec_token (snd x)) line"
    by (intro parse_layout) simp_all
qed

theorem tokens_shaped_and_unsplit_witness:
  "''pandoc-'' \<notin> fst ` set [(''pandoc-toc'', JBool True), (''title'', JStr ''T'')]
   \<and> ''--toc'' \<in> set (cliArgs (main_convertYamlToPandocArgs (posix_host ''/home/me'' []) None
                                 [(''pandoc-toc'', JBool True), (''title'', JStr ''T'')]
                                 ''/vault/notes'' ''/vault''))
   \<and> (\<exists>k \<in> fst ` set [(''pandoc-toc'', JBool True), (''title'', JStr ''T'')].
         startsWith k ''pandoc-'' \<and> spec_wellFormed (drop 7 k) ''--toc'')
   \<and> startsWith ''pandoc-title-prefix'' ''pandoc-'' \<and> spec_scalar (JStr ''My Site'')
   \<and> isValid (validatePandocOption ''title-prefix'' (JStr ''My Site''))
   \<and> cliArgs (main_step (posix_host ''/home/me'' []) None ''/vault/notes'' ''/vault''
                (''pandoc-title-prefix'', JStr ''My Site'') \<lparr>cleanedMetadata = [], cliArgs = []\<rparr>)
       = [''--title-prefix=My Site'']
   \<and> cliArgs (renderer_step (posix_host ''/home/me'' []) ''/vault/notes'' ''/vault'' None
                (''pandoc-title-prefix'', JStr ''My Site'')
                \<lparr>cleanedMetadata = [], cliArgs = [], notices = []\<rparr>)
       = [''--title-prefix=My Site'']
   \<and> spec_separated [([], Word ''--toc''), ('' '', QuotedValue ''--css'' dq ''my file.css''),
                       (''  '', Word ''-V'')]
   \<and> list_all isSpace '' ''
   \<and> parseArgumentString
         (spec_layout [([], Word ''--toc''), ('' '', QuotedValue ''--css'' dq ''my file.css''),
                       (''  '', Word ''-V'')] @ '' '')
       = [''--toc'', ''--css=my file.css'', ''-V'']"
proof -
  let ?h = "posix_host ''/home/me'' []"
  let ?md = "[(''pandoc-toc'', JBool True), (''title'', JStr ''T'')]"
  let ?line = "[([], Word ''--toc''), ('' '', QuotedValue ''--css'' dq ''my file.css''),
                (''  '', Word ''-V'')]"
  have bare: "''pandoc-'' \<notin> fst ` set ?md" by simp
  have tok: "''--toc'' \<in> set (cliArgs (main_convertYamlToPandocArgs ?h None ?md
                                          ''/vault/notes'' ''/vault''))"
    by code_simp
  have k: "startsWith ''pandoc-title-prefix'' ''pandoc-''"
    by (simp add: startsWith_def)
  have sc: "spec_scalar (JStr ''My Site'')"
    by (simp add: spec_scalar_def)
  have va: "isValid (validatePandocOption ''title-prefix'' (JStr ''My Site''))"
    by code_simp
  have n: "''title-prefix'' \<notin> set main_FILE_PATH_ARGUMENTS"
    "''title-prefix'' \<notin> set FILE_PATH_ARGUMENTS"
    by (simp_all add: main_FILE_PATH_ARGUMENTS_def FILE_PATH_ARGUMENTS_def)
  have sep: "spec_separated ?line"
    by (simp add: isPlain_def isSpace_def sq_def dq_def)
  have tr: "list_all isSpace '' ''"
    by (simp add: isSpace_def)
  note inst = tokens_shaped_and_unsplit
      [of ?md ?h None "''/vault/notes''" "''/vault''" "''pandoc-title-prefix''"
          "JStr ''My Site''" "\<lparr>cleanedMetadata = [], cliArgs = []\<rparr>"
          "\<lparr>cleanedMetadata = [], cliArgs = [], notices = []\<rparr>" ?line "'' ''"]
  from inst bare tok
  have shaped: "\<exists>k \<in> fst ` set ?md. startsWith k ''pandoc-'' \<and> spec_wellFormed (drop 7 k) ''--toc''"
    by blast
  from inst k sc n
  have one: "cliArgs (main_step ?h None ''/vault/notes'' ''/vault''
                (''pandoc-title-prefix'', JStr ''My Site'') \<lparr>cleanedMetadata = [], cliArgs = []\<rparr>)
       = [''--title-prefix=My Site'']"
    by simp
  from inst k sc va n
  have two: "cliArgs (renderer_step ?h ''/vault/notes'' ''/vault'' None
                (''pandoc-title-prefix'', JStr ''My Site'')
                \<lparr>cleanedMetadata = [], cliArgs = [], notices = []\<rparr>)
       = [''--title-prefix=My Site'']"
    by simp
  from inst sep tr
  have three: "parseArgumentString (spec_layout ?line @ '' '')
                 = [''--toc'', ''--css=my file.css'', ''-V'']"
    by simp
  from bare tok shaped k sc va one two sep tr three show ?thesis
    by (intro conjI)
qed

lemma wellFormed_dashes:
  assumes "spec_wellFormed name t"
  shows "startsWith t ''--''"
proof -
  from assms consider "t = ''--'' @ name" | "startsWith t (''--'' @ name @ ''='')"
    by (auto simp: spec_wellFormed_def spec_shaped_def)
  then show ?thesis
  proof cases
    case 1
    then show ?thesis by (simp add: startsWith_def)
  next
    case 2
    then have "take (length (''--'' @ name @ ''='')) t = ''--'' @ name @ ''=''"
      by (simp add: startsWith_def)
    then have "take 2 (take (length (''--'' @ name @ ''='')) t) = ''--''"
      by simp
    then have "take 2 t = ''--''"
      by (simp add: min_def)
    then show ?thesis by (simp add: startsWith_def numeral_2_eq_2)
  qed
qed

text \<open>The claim as the specification states it fails on the extra-argument strings: a
  short option and a bare word are passed on as they are, and they have not the shape
  \<^verbatim>\<open>--name\<close>. It also fails on the directive with the bare key \<^verbatim>\<open>pandoc-\<close>,
  whose token \<^verbatim>\<open>--\<close> names no option.\<close>

theorem short_option_counterexample:
  "parseArgumentString ''-o out.md'' = [''-o'', ''out.md'']
   \<and> \<not> startsWith ''-o'' ''--'' \<and> \<not> startsWith ''out.md'' ''--''
   \<and> cliArgs (main_convertYamlToPandocArgs (posix_host ''/home/me'' []) None
                [(''pandoc-'', JBool True)] ''/vault/notes'' ''/vault'')
       = [''--'']"
proof -
  have "parseArgumentString ''-o out.md'' = [''-o'', ''out.md'']"
    by code_simp
  moreover
  have "cliArgs (main_convertYamlToPandocArgs (posix_host ''/home/me'' []) None
                [(''pandoc-'', JBool True)] ''/vault/notes'' ''/vault'')
       = [''--'']"
    by code_simp
  ultimately show ?thesis by (simp add: startsWith_def)
qed

end
